theory Spec2Isabelle
  imports Main "HOL-Library.Word" "HOL-Library.Sublist"
begin

unbundle bit_operations_syntax

section \<open>The Symbian serial port engine (serialportengine\_symbian.cpp)\<close>

text \<open>
  A shallow embedding of \<^verbatim>\<open>SymbianSerialPortEngine\<close>. The engine talks to the
  operating system through \<^verbatim>\<open>RComm\<close>, \<^verbatim>\<open>RCommServ\<close> and \<^verbatim>\<open>RTimer\<close>; every call
  to them is recorded in a trace, and what the call returns is an argument of the modelled
  function, so that each theorem holds for every answer of the device.
\<close>

subsection \<open>Platform declarations\<close>

text \<open>
  \<^verbatim>\<open>TInt\<close> result codes. The source compares a result with these five named
  codes only; no arithmetic is done on them. The named constructors are the codes the source
  mentions, \<open>KErrCode c\<close> stands for any other system-wide code \<open>c\<close>.
\<close>

datatype TInt = KErrNone | KErrAlreadyExists | KErrPermissionDenied | KErrLocked
  | KErrAccessDenied | KErrCode int

text \<open>
  The names of the baud rate enumerators the rate table mentions. Their numeric values are
  declared by the platform header (d32comm.h), which is not among the sources: they are the
  field \<open>TBps_val\<close> of the parameter \<open>d32comm\<close> below.
\<close>

datatype TBps = EBps50 | EBps75 | EBps110 | EBps134 | EBps150 | EBps300 | EBps600
  | EBps1200 | EBps1800 | EBps2000 | EBps2400 | EBps3600 | EBps4800 | EBps7200 | EBps9600
  | EBps19200 | EBps38400 | EBps57600 | EBps115200 | EBps230400 | EBps460800 | EBps576000
  | EBps921600 | EBps1152000 | EBps4000000

text \<open>
  The native enumerations of \<^verbatim>\<open>TCommConfigV01\<close>. A field of enumeration type can hold
  a value that is none of the enumerators the source names (the \<^verbatim>\<open>default:\<close> arms of
  \<^verbatim>\<open>detectDefaultSettings\<close>): the last constructor of each type.
\<close>

datatype TDataBits = EData5 | EData6 | EData7 | EData8 | TDataBits_other nat

datatype TParity = EParityNone | EParityEven | EParityOdd | EParityMark | EParitySpace
  | TParity_other nat

datatype TStopBits = EStop1 | EStop2 | TStopBits_other nat

text \<open>
  The platform constants whose numeric value the code depends on, as a parameter: the value of
  each \<^verbatim>\<open>TBps\<close> enumerator (stored in a \<^verbatim>\<open>qint32\<close> and tested against 0 by
  \<^verbatim>\<open>setRate\<close>) and the handshake bit masks.
\<close>

record d32comm =
  TBps_val :: "TBps \<Rightarrow> int"
  KConfigObeyXoff :: "32 word"
  KConfigSendXoff :: "32 word"
  KConfigObeyCTS :: "32 word"
  KConfigFreeRTS :: "32 word"
  KConfigFailDSR :: "32 word"

text \<open>
  The numbering of the Symbian SDK header (enumerators count from 0 in the header's order,
  where \<^verbatim>\<open>EBps921600\<close> comes last; the handshake masks are single bits). It is used for
  concrete evaluation only; the general theorems hold for every \<open>d32comm\<close>.
\<close>

fun symbian_TBps :: "TBps \<Rightarrow> int" where
  "symbian_TBps EBps50 = 0"
| "symbian_TBps EBps75 = 1"
| "symbian_TBps EBps110 = 2"
| "symbian_TBps EBps134 = 3"
| "symbian_TBps EBps150 = 4"
| "symbian_TBps EBps300 = 5"
| "symbian_TBps EBps600 = 6"
| "symbian_TBps EBps1200 = 7"
| "symbian_TBps EBps1800 = 8"
| "symbian_TBps EBps2000 = 9"
| "symbian_TBps EBps2400 = 10"
| "symbian_TBps EBps3600 = 11"
| "symbian_TBps EBps4800 = 12"
| "symbian_TBps EBps7200 = 13"
| "symbian_TBps EBps9600 = 14"
| "symbian_TBps EBps19200 = 15"
| "symbian_TBps EBps38400 = 16"
| "symbian_TBps EBps57600 = 17"
| "symbian_TBps EBps115200 = 18"
| "symbian_TBps EBps230400 = 19"
| "symbian_TBps EBps460800 = 20"
| "symbian_TBps EBps576000 = 21"
| "symbian_TBps EBps1152000 = 22"
| "symbian_TBps EBps4000000 = 23"
| "symbian_TBps EBps921600 = 24"

definition symbian :: d32comm where
  "symbian = \<lparr> TBps_val = symbian_TBps,
     KConfigObeyXoff = 0x01, KConfigSendXoff = 0x02, KConfigObeyCTS = 0x04,
     KConfigFreeRTS = 0x100, KConfigFailDSR = 0x20 \<rparr>"

text \<open>
  Modelled from the spec: the portable enumerations of class \<^verbatim>\<open>SerialPort\<close>
  (serialport.h is not among the sources). Section 3 of the specification gives their valid
  members and the tag \<open>Unknown\<close>; the constructor names are those the source uses. A caller
  can pass a value that is none of them (section 8: dataBits=4, stopBits=3, an invalid
  parity tag): the last constructor of each type.
\<close>

datatype DataBits = Data5 | Data6 | Data7 | Data8 | UnknownDataBits | DataBits_other int

datatype Parity = NoParity | EvenParity | OddParity | SpaceParity | MarkParity
  | UnknownParity | Parity_other int

datatype StopBits = OneStop | TwoStop | UnknownStopBits | StopBits_other int

datatype FlowControl = NoFlowControl | HardwareControl | SoftwareControl
  | UnknownFlowControl | FlowControl_other int

datatype Directions = Input | Output | AllDirections

datatype PortError = NoError | NoSuchDeviceError | PermissionDeniedError
  | UnsupportedPortOperationError | IoError | UnknownPortError

subsection \<open>The rate table and its two lookups\<close>

record RatePair =
  rate :: int
  setting :: int

text \<open>\<^verbatim>\<open>RatePair::operator<\<close> compares rates, \<^verbatim>\<open>RatePair::operator==\<close> settings.\<close>

definition RatePair_less :: "RatePair \<Rightarrow> RatePair \<Rightarrow> bool" where
  "RatePair_less a other = (rate a < rate other)"

definition RatePair_eq :: "RatePair \<Rightarrow> RatePair \<Rightarrow> bool" where
  "RatePair_eq a other = (setting a = setting other)"

definition standardRatesTable :: "d32comm \<Rightarrow> RatePair list" where
  "standardRatesTable K = map (\<lambda>(r, e). \<lparr> rate = r, setting = TBps_val K e \<rparr>)
    [ (50, EBps50),
      (75, EBps75),
      (110, EBps110),
      (134, EBps134),
      (150, EBps150),
      (300, EBps300),
      (600, EBps600),
      (1200, EBps1200),
      (1800, EBps1800),
      (2000, EBps2000),
      (2400, EBps2400),
      (3600, EBps3600),
      (4800, EBps4800),
      (7200, EBps7200),
      (9600, EBps9600),
      (19200, EBps19200),
      (38400, EBps38400),
      (57600, EBps57600),
      (115200, EBps115200),
      (230400, EBps230400),
      (460800, EBps460800),
      (576000, EBps576000),
      (921600, EBps921600),
      (1152000, EBps1152000),
      (4000000, EBps4000000) ]"

text \<open>
  Qt's \<^verbatim>\<open>qFind\<close>, \<^verbatim>\<open>qLowerBound\<close> and \<^verbatim>\<open>qBinaryFind\<close> (QtAlgorithms, a library
  the source calls). Iterators into the table are indices; \<open>length tbl\<close> is the end iterator.
  \<^verbatim>\<open>qFind\<close> walks from the front to the first element equal to the value.
  \<^verbatim>\<open>qLowerBound\<close> halves the range \<open>[begin, begin + n)\<close>; it reads \<open>tbl ! middle\<close> only for
  \<open>middle < begin + n\<close>, inside the table for the call \<^verbatim>\<open>qBinaryFind\<close> makes.
\<close>

fun qFind :: "RatePair list \<Rightarrow> RatePair \<Rightarrow> nat" where
  "qFind [] val = 0"
| "qFind (x # xs) val = (if RatePair_eq x val then 0 else Suc (qFind xs val))"

function qLowerBound :: "RatePair list \<Rightarrow> nat \<Rightarrow> nat \<Rightarrow> RatePair \<Rightarrow> nat" where
  "qLowerBound tbl begin n val =
     (if 0 < n then
        (if RatePair_less (tbl ! (begin + n div 2)) val
         then qLowerBound tbl (begin + n div 2 + 1) (n - (n div 2 + 1)) val
         else qLowerBound tbl begin (n div 2) val)
      else begin)"
  by pat_completeness auto
termination
  by (relation "measure (\<lambda>(tbl, begin, n, val). n)") auto

definition qBinaryFind :: "RatePair list \<Rightarrow> RatePair \<Rightarrow> nat" where
  "qBinaryFind tbl val =
     (let it = qLowerBound tbl 0 (length tbl) val
      in if it = length tbl \<or> RatePair_less val (tbl ! it) then length tbl else it)"

definition rateFromSetting :: "d32comm \<Rightarrow> int \<Rightarrow> int" where
  "rateFromSetting K s =
     (let rp = \<lparr> rate = 0, setting = s \<rparr>;
          ret = qFind (standardRatesTable K) rp
      in if ret \<noteq> length (standardRatesTable K) then rate (standardRatesTable K ! ret) else 0)"

definition settingFromRate :: "d32comm \<Rightarrow> int \<Rightarrow> int" where
  "settingFromRate K r =
     (let rp = \<lparr> rate = r, setting = 0 \<rparr>;
          ret = qBinaryFind (standardRatesTable K) rp
      in if ret \<noteq> length (standardRatesTable K) then setting (standardRatesTable K ! ret) else 0)"

definition standardRates :: "d32comm \<Rightarrow> int list" where
  "standardRates K = map rate (standardRatesTable K)"


subsection \<open>The engine's state and the device\<close>

text \<open>
  \<^verbatim>\<open>TCommConfigV01\<close>: the fields the engine reads or writes. \<open>iRate\<close> holds the
  numeric value of a \<^verbatim>\<open>TBps\<close> enumerator (\<^verbatim>\<open>setRate\<close> stores a \<^verbatim>\<open>qint32\<close> there by
  \<^verbatim>\<open>static_cast\<close>).
\<close>

record TCommConfigV01 =
  iRate :: int
  iDataBits :: TDataBits
  iParity :: TParity
  iStopBits :: TStopBits
  iHandshake :: "32 word"

text \<open>\<^verbatim>\<open>dptr->options\<close>: the portable configuration kept by the owning port object.\<close>

record Options =
  inputRate :: int
  outputRate :: int
  dataBits :: DataBits
  parity :: Parity
  stopBits :: StopBits
  flow :: FlowControl
  restoreSettingsOnClose :: bool

text \<open>
  The calls the engine makes on the comm server, on the port handle \<^verbatim>\<open>m_descriptor\<close>, on
  \<^verbatim>\<open>m_selectTimer\<close> and the waits on request statuses, in the order it makes them.
  \<open>RTimer_HighRes\<close> carries the timeout in milliseconds as \<^verbatim>\<open>select\<close> received it.
\<close>

datatype call =
    RCommServ_Connect
  | RCommServ_LoadCommModule string
  | RComm_Open string
  | RComm_Config
  | RComm_SetConfig TCommConfigV01
  | RComm_Close
  | RComm_NotifyDataAvailable
  | RComm_NotifyOutputEmpty
  | RComm_NotifyDataAvailableCancel
  | RComm_NotifyOutputEmptyCancel
  | RTimer_CreateLocal
  | RTimer_HighRes int
  | RTimer_Cancel
  | User_WaitForNRequest
  | User_WaitForRequest

text \<open>
  The engine: \<open>m_descriptor\<close> tells whether the port handle is open (held), \<open>m_selectTimer\<close>
  whether the timer has a handle; \<open>dptr_error\<close> is the error that \<^verbatim>\<open>dptr->setError\<close> recorded
  last.
\<close>

record engine =
  m_descriptor :: bool
  m_selectTimer :: bool
  m_currentSettings :: TCommConfigV01
  m_restoredSettings :: TCommConfigV01
  dptr_error :: PortError
  dptr_options :: Options
  calls :: "call list"

definition setError :: "PortError \<Rightarrow> engine \<Rightarrow> engine" where
  "setError e s = s\<lparr> dptr_error := e \<rparr>"

definition do_call :: "call \<Rightarrow> engine \<Rightarrow> engine" where
  "do_call c s = s\<lparr> calls := calls s @ [c] \<rparr>"

subsection \<open>Detection of the portable configuration\<close>

definition detectDefaultSettings :: "d32comm \<Rightarrow> engine \<Rightarrow> engine" where
  "detectDefaultSettings K s =
     (let cur = m_currentSettings s;
          r = rateFromSetting K (iRate cur);
          d = (case iDataBits cur of
                 EData5 \<Rightarrow> Data5
               | EData6 \<Rightarrow> Data6
               | EData7 \<Rightarrow> Data7
               | EData8 \<Rightarrow> Data8
               | _ \<Rightarrow> UnknownDataBits);
          p = (case iParity cur of
                 EParityNone \<Rightarrow> NoParity
               | EParityEven \<Rightarrow> EvenParity
               | EParityOdd \<Rightarrow> OddParity
               | EParityMark \<Rightarrow> MarkParity
               | EParitySpace \<Rightarrow> SpaceParity
               | _ \<Rightarrow> UnknownParity);
          b = (case iStopBits cur of
                 EStop1 \<Rightarrow> OneStop
               | EStop2 \<Rightarrow> TwoStop
               | _ \<Rightarrow> UnknownStopBits);
          f = (if (iHandshake cur AND (KConfigObeyXoff K OR KConfigSendXoff K))
                    = (KConfigObeyXoff K OR KConfigSendXoff K)
               then SoftwareControl
               else if (iHandshake cur AND (KConfigObeyCTS K OR KConfigFreeRTS K))
                    = (KConfigObeyCTS K OR KConfigFreeRTS K)
               then HardwareControl
               else if iHandshake cur AND KConfigFailDSR K \<noteq> 0
               then NoFlowControl
               else UnknownFlowControl)
      in s\<lparr> dptr_options := (dptr_options s)\<lparr> inputRate := r, outputRate := r, dataBits := d,
                parity := p, stopBits := b, flow := f \<rparr> \<rparr>)"

subsection \<open>Opening and closing\<close>

text \<open>
  \<^verbatim>\<open>loadDevices\<close> on the device build (\<^verbatim>\<open>__WINS__\<close> not defined), from the results of
  \<^verbatim>\<open>User::LoadPhysicalDevice\<close>, \<^verbatim>\<open>User::LoadLogicalDevice\<close> and \<^verbatim>\<open>StartC32\<close>.
\<close>

definition loadDevices :: "TInt \<Rightarrow> TInt \<Rightarrow> TInt \<Rightarrow> bool" where
  "loadDevices rPdd rLdd rC32 =
     (if rPdd \<noteq> KErrNone \<and> rPdd \<noteq> KErrAlreadyExists then False
      else if rLdd \<noteq> KErrNone \<and> rLdd \<noteq> KErrAlreadyExists then False
      else if rC32 \<noteq> KErrNone \<and> rC32 \<noteq> KErrAlreadyExists then False
      else True)"

text \<open>\<^verbatim>\<open>QString::contains\<close>: the pattern occurs somewhere in the string.\<close>

fun QString_contains :: "string \<Rightarrow> string \<Rightarrow> bool" where
  "QString_contains [] p = (p = [])"
| "QString_contains (c # cs) p = (prefix p (c # cs) \<or> QString_contains cs p)"

definition moduleName :: "string \<Rightarrow> string" where
  "moduleName location =
     (if QString_contains location ''BTCOMM'' then ''BTCOMM''
      else if QString_contains location ''IRCOMM'' then ''IRCOMM''
      else if QString_contains location ''ACM'' then ''ECACM''
      else ''ECUART'')"

text \<open>
  What the platform answers during \<^verbatim>\<open>open\<close>: the result of each call, and the settings
  that \<^verbatim>\<open>RComm::Config\<close> writes into its argument.
\<close>

record open_replies =
  r_LoadPhysicalDevice :: TInt
  r_LoadLogicalDevice :: TInt
  r_StartC32 :: TInt
  r_Connect :: TInt
  r_LoadCommModule :: TInt
  r_Open :: TInt
  r_Config :: TInt
  config_read :: TCommConfigV01

definition "open" :: "d32comm \<Rightarrow> string \<Rightarrow> open_replies \<Rightarrow> engine \<Rightarrow> bool \<times> engine" where
  "open K location env s =
     (if \<not> loadDevices (r_LoadPhysicalDevice env) (r_LoadLogicalDevice env) (r_StartC32 env)
      then (False, setError UnknownPortError s)
      else
        let s1 = do_call RCommServ_Connect s in
        if r_Connect env \<noteq> KErrNone then (False, setError UnknownPortError s1)
        else
          let s2 = do_call (RCommServ_LoadCommModule (moduleName location)) s1 in
          if r_LoadCommModule env \<noteq> KErrNone then (False, setError UnknownPortError s2)
          else
            let s3 = do_call (RComm_Open location) s2 in
            if r_Open env \<noteq> KErrNone then
              (case r_Open env of
                 KErrPermissionDenied \<Rightarrow> (False, setError NoSuchDeviceError s3)
               | KErrLocked \<Rightarrow> (False, setError PermissionDeniedError s3)
               | KErrAccessDenied \<Rightarrow> (False, setError PermissionDeniedError s3)
               | _ \<Rightarrow> (False, setError UnknownPortError s3))
            else
              let s4 = do_call RComm_Config
                         (s3\<lparr> m_descriptor := True, m_restoredSettings := config_read env \<rparr>) in
              if r_Config env \<noteq> KErrNone then (False, setError UnknownPortError s4)
              else (True, detectDefaultSettings K s4))"

text \<open>
  \<^verbatim>\<open>close\<close>. The result of \<^verbatim>\<open>SetConfig\<close> is an argument, \<open>r_SetConfig\<close>; the source
  does not look at it.
\<close>

definition close :: "TInt \<Rightarrow> engine \<Rightarrow> engine" where
  "close r_SetConfig s =
     (let s1 = (if restoreSettingsOnClose (dptr_options s)
                then do_call (RComm_SetConfig (m_restoredSettings s)) s else s)
      in (do_call RComm_Close s1)\<lparr> m_descriptor := False \<rparr>)"

subsection \<open>The readiness wait\<close>

datatype TRequestStatus = KRequestPending | Completed TInt

text \<open>
  What the platform answers during \<^verbatim>\<open>select\<close>: the result of \<^verbatim>\<open>RTimer::CreateLocal\<close>
  and the three request statuses as they stand when \<^verbatim>\<open>User::WaitForNRequest\<close> returns.
\<close>

record select_replies =
  r_CreateLocal :: TInt
  timerStatus :: TRequestStatus
  readStatus :: TRequestStatus
  writeStatus :: TRequestStatus

text \<open>
  \<^verbatim>\<open>select\<close> returns its result and the two flags behind the pointers
  \<^verbatim>\<open>selectForRead\<close> and \<^verbatim>\<open>selectForWrite\<close>, whose values on entry are arguments.
\<close>

definition select ::
  "int \<Rightarrow> bool \<Rightarrow> bool \<Rightarrow> bool \<Rightarrow> bool \<Rightarrow> select_replies \<Rightarrow> engine
    \<Rightarrow> bool \<times> bool \<times> bool \<times> engine" where
  "select timeout checkRead checkWrite selectForRead selectForWrite env s =
     (if 0 < timeout \<and> \<not> m_selectTimer s \<and> r_CreateLocal env \<noteq> KErrNone
      then (False, selectForRead, selectForWrite, do_call RTimer_CreateLocal s)
      else
        let s1 = (if 0 < timeout \<and> \<not> m_selectTimer s
                  then (do_call RTimer_CreateLocal s)\<lparr> m_selectTimer := True \<rparr> else s);
            s2 = (if 0 < timeout then do_call (RTimer_HighRes timeout) s1 else s1);
            s3 = (if checkRead then do_call RComm_NotifyDataAvailable s2 else s2);
            s4 = (if checkWrite then do_call RComm_NotifyOutputEmpty s3 else s3);
            s5 = do_call User_WaitForNRequest s4
        in
          if timerStatus env \<noteq> KRequestPending then (False, False, False, s5)
          else
            let s6 = do_call User_WaitForRequest (do_call RTimer_Cancel s5);
                forRead = (if readStatus env \<noteq> KRequestPending then True else selectForRead);
                forWrite = (if writeStatus env \<noteq> KRequestPending then True else selectForWrite);
                s7 = (if checkRead then do_call RComm_NotifyDataAvailableCancel s6 else s6);
                s8 = (if checkWrite then do_call RComm_NotifyOutputEmptyCancel s7 else s7)
            in (True, forRead, forWrite, s8))"

subsection \<open>The configuration setters\<close>

text \<open>\<open>r\<close> is the result of \<^verbatim>\<open>RComm::SetConfig\<close>.\<close>

definition updateCommConfig :: "TInt \<Rightarrow> engine \<Rightarrow> bool \<times> engine" where
  "updateCommConfig r s =
     (let s1 = do_call (RComm_SetConfig (m_currentSettings s)) s
      in if r \<noteq> KErrNone then (False, setError UnsupportedPortOperationError s1)
         else (True, s1))"

definition setRate :: "d32comm \<Rightarrow> int \<Rightarrow> Directions \<Rightarrow> TInt \<Rightarrow> engine \<Rightarrow> bool \<times> engine" where
  "setRate K baud dir r s =
     (if dir \<noteq> AllDirections then (False, setError UnsupportedPortOperationError s)
      else
        let baud' = settingFromRate K baud in
        if baud' \<noteq> 0
        then updateCommConfig r (s\<lparr> m_currentSettings := (m_currentSettings s)\<lparr> iRate := baud' \<rparr> \<rparr>)
        else (False, setError UnsupportedPortOperationError s))"

definition setDataBits :: "DataBits \<Rightarrow> TInt \<Rightarrow> engine \<Rightarrow> bool \<times> engine" where
  "setDataBits d r s =
     (case d of
        Data5 \<Rightarrow> updateCommConfig r (s\<lparr> m_currentSettings := (m_currentSettings s)\<lparr> iDataBits := EData5 \<rparr> \<rparr>)
      | Data6 \<Rightarrow> updateCommConfig r (s\<lparr> m_currentSettings := (m_currentSettings s)\<lparr> iDataBits := EData6 \<rparr> \<rparr>)
      | Data7 \<Rightarrow> updateCommConfig r (s\<lparr> m_currentSettings := (m_currentSettings s)\<lparr> iDataBits := EData7 \<rparr> \<rparr>)
      | Data8 \<Rightarrow> updateCommConfig r (s\<lparr> m_currentSettings := (m_currentSettings s)\<lparr> iDataBits := EData8 \<rparr> \<rparr>)
      | _ \<Rightarrow> (False, setError UnsupportedPortOperationError s))"

definition setParity :: "Parity \<Rightarrow> TInt \<Rightarrow> engine \<Rightarrow> bool \<times> engine" where
  "setParity p r s =
     (case p of
        NoParity \<Rightarrow> updateCommConfig r (s\<lparr> m_currentSettings := (m_currentSettings s)\<lparr> iParity := EParityNone \<rparr> \<rparr>)
      | EvenParity \<Rightarrow> updateCommConfig r (s\<lparr> m_currentSettings := (m_currentSettings s)\<lparr> iParity := EParityEven \<rparr> \<rparr>)
      | OddParity \<Rightarrow> updateCommConfig r (s\<lparr> m_currentSettings := (m_currentSettings s)\<lparr> iParity := EParityOdd \<rparr> \<rparr>)
      | MarkParity \<Rightarrow> updateCommConfig r (s\<lparr> m_currentSettings := (m_currentSettings s)\<lparr> iParity := EParityMark \<rparr> \<rparr>)
      | SpaceParity \<Rightarrow> updateCommConfig r (s\<lparr> m_currentSettings := (m_currentSettings s)\<lparr> iParity := EParitySpace \<rparr> \<rparr>)
      | _ \<Rightarrow> (False, setError UnsupportedPortOperationError s))"

definition setStopBits :: "StopBits \<Rightarrow> TInt \<Rightarrow> engine \<Rightarrow> bool \<times> engine" where
  "setStopBits b r s =
     (case b of
        OneStop \<Rightarrow> updateCommConfig r (s\<lparr> m_currentSettings := (m_currentSettings s)\<lparr> iStopBits := EStop1 \<rparr> \<rparr>)
      | TwoStop \<Rightarrow> updateCommConfig r (s\<lparr> m_currentSettings := (m_currentSettings s)\<lparr> iStopBits := EStop2 \<rparr> \<rparr>)
      | _ \<Rightarrow> (False, setError UnsupportedPortOperationError s))"

definition setFlowControl :: "d32comm \<Rightarrow> FlowControl \<Rightarrow> TInt \<Rightarrow> engine \<Rightarrow> bool \<times> engine" where
  "setFlowControl K f r s =
     (case f of
        NoFlowControl \<Rightarrow> updateCommConfig r
          (s\<lparr> m_currentSettings := (m_currentSettings s)\<lparr> iHandshake := KConfigFailDSR K \<rparr> \<rparr>)
      | HardwareControl \<Rightarrow> updateCommConfig r
          (s\<lparr> m_currentSettings := (m_currentSettings s)\<lparr> iHandshake := KConfigObeyCTS K OR KConfigFreeRTS K \<rparr> \<rparr>)
      | SoftwareControl \<Rightarrow> updateCommConfig r
          (s\<lparr> m_currentSettings := (m_currentSettings s)\<lparr> iHandshake := KConfigObeyXoff K OR KConfigSendXoff K \<rparr> \<rparr>)
      | _ \<Rightarrow> (False, setError UnsupportedPortOperationError s))"


subsection \<open>Applying a whole portable configuration\<close>

text \<open>
  The specification's \<open>toNative\<close> (section 4.2) takes a portable configuration with one rate
  for both directions. On this engine it is the five setters in turn, each on the state the
  one before left, stopping at the first that returns false; \<open>reply i\<close> is the device's
  answer to the \<open>i\<close>-th push. The specification's \<open>fromNative\<close> is
  \<open>detectDefaultSettings\<close>.
\<close>

record PortConfiguration =
  cfg_rate :: int
  cfg_dataBits :: DataBits
  cfg_parity :: Parity
  cfg_stopBits :: StopBits
  cfg_flow :: FlowControl

definition toNative ::
  "d32comm \<Rightarrow> PortConfiguration \<Rightarrow> (nat \<Rightarrow> TInt) \<Rightarrow> engine \<Rightarrow> bool \<times> engine" where
  "toNative K P reply s =
     (let (ok1, s1) = setRate K (cfg_rate P) AllDirections (reply 0) s in
      if \<not> ok1 then (False, s1) else
      let (ok2, s2) = setDataBits (cfg_dataBits P) (reply 1) s1 in
      if \<not> ok2 then (False, s2) else
      let (ok3, s3) = setParity (cfg_parity P) (reply 2) s2 in
      if \<not> ok3 then (False, s3) else
      let (ok4, s4) = setStopBits (cfg_stopBits P) (reply 3) s3 in
      if \<not> ok4 then (False, s4) else
      setFlowControl K (cfg_flow P) (reply 4) s4)"

text \<open>The valid enumerants of section 3: a rate of the table and no \<open>Unknown\<close> tag.\<close>

definition valid_configuration :: "d32comm \<Rightarrow> PortConfiguration \<Rightarrow> bool" where
  "valid_configuration K P =
     (cfg_rate P \<in> set (standardRates K)
      \<and> cfg_dataBits P \<in> {Data5, Data6, Data7, Data8}
      \<and> cfg_parity P \<in> {NoParity, EvenParity, OddParity, MarkParity, SpaceParity}
      \<and> cfg_stopBits P \<in> {OneStop, TwoStop}
      \<and> cfg_flow P \<in> {NoFlowControl, HardwareControl, SoftwareControl})"

text \<open>
  What the round trip needs of the handshake masks: the hardware pair does not contain the
  software pair, and the fail-on-DSR marker is non-zero and contains neither pair.
\<close>

definition handshake_masks_separate :: "d32comm \<Rightarrow> bool" where
  "handshake_masks_separate K =
     (((KConfigObeyCTS K OR KConfigFreeRTS K) AND (KConfigObeyXoff K OR KConfigSendXoff K))
         \<noteq> (KConfigObeyXoff K OR KConfigSendXoff K)
      \<and> (KConfigFailDSR K AND (KConfigObeyXoff K OR KConfigSendXoff K))
         \<noteq> (KConfigObeyXoff K OR KConfigSendXoff K)
      \<and> (KConfigFailDSR K AND (KConfigObeyCTS K OR KConfigFreeRTS K))
         \<noteq> (KConfigObeyCTS K OR KConfigFreeRTS K)
      \<and> KConfigFailDSR K \<noteq> 0)"

subsection \<open>States and answers for concrete evaluation\<close>

text \<open>
  A port on the Symbian numbering at 9600 baud, 8 data bits, no parity, one stop bit and no
  flow control, before \<^verbatim>\<open>open\<close> and once opened.
\<close>

definition settings_9600_8N1 :: TCommConfigV01 where
  "settings_9600_8N1 = \<lparr> iRate = 14, iDataBits = EData8, iParity = EParityNone,
     iStopBits = EStop1, iHandshake = 0x20 \<rparr>"

definition closed_port :: engine where
  "closed_port = \<lparr> m_descriptor = False, m_selectTimer = False,
     m_currentSettings = settings_9600_8N1, m_restoredSettings = settings_9600_8N1,
     dptr_error = NoError,
     dptr_options = \<lparr> inputRate = 9600, outputRate = 9600, dataBits = Data8,
       parity = NoParity, stopBits = OneStop, flow = NoFlowControl,
       restoreSettingsOnClose = True \<rparr>,
     calls = [] \<rparr>"

definition opened_port :: engine where
  "opened_port = closed_port\<lparr> m_descriptor := True \<rparr>"

definition all_accepted :: open_replies where
  "all_accepted = \<lparr> r_LoadPhysicalDevice = KErrNone, r_LoadLogicalDevice = KErrAlreadyExists,
     r_StartC32 = KErrNone, r_Connect = KErrNone, r_LoadCommModule = KErrNone,
     r_Open = KErrNone, r_Config = KErrNone, config_read = settings_9600_8N1 \<rparr>"

definition timer_fired :: select_replies where
  "timer_fired = \<lparr> r_CreateLocal = KErrNone, timerStatus = Completed KErrNone,
     readStatus = KRequestPending, writeStatus = KRequestPending \<rparr>"

definition config_75_7E2 :: PortConfiguration where
  "config_75_7E2 = \<lparr> cfg_rate = 75, cfg_dataBits = Data7, cfg_parity = EvenParity,
     cfg_stopBits = TwoStop, cfg_flow = HardwareControl \<rparr>"

definition config_50_8N1 :: PortConfiguration where
  "config_50_8N1 = \<lparr> cfg_rate = 50, cfg_dataBits = Data8, cfg_parity = NoParity,
     cfg_stopBits = OneStop, cfg_flow = NoFlowControl \<rparr>"

definition exotic_port :: "32 word \<Rightarrow> engine" where
  "exotic_port h = opened_port\<lparr> m_currentSettings := \<lparr> iRate = 99, iDataBits = TDataBits_other 9,
     iParity = TParity_other 7, iStopBits = TStopBits_other 5, iHandshake = h \<rparr> \<rparr>"

subsection \<open>What a setter leaves behind\<close>

text \<open>
  \<open>rejected_untouched\<close>: the call returned false, the working copy \<open>m_currentSettings\<close> is as it
  was and no call reached the device. \<open>updated_then_pushed\<close>: the working copy is the updated
  configuration, and exactly one call was made, the push of that updated configuration.
\<close>

definition rejected_untouched :: "engine \<Rightarrow> bool \<times> engine \<Rightarrow> bool" where
  "rejected_untouched s res =
     (\<not> fst res \<and> m_currentSettings (snd res) = m_currentSettings s \<and> calls (snd res) = calls s)"

definition updated_then_pushed :: "engine \<Rightarrow> TCommConfigV01 \<Rightarrow> bool \<times> engine \<Rightarrow> bool" where
  "updated_then_pushed s updated res =
     (m_currentSettings (snd res) = updated \<and> calls (snd res) = calls s @ [RComm_SetConfig updated])"

section \<open>The rate table\<close>

lemma rates_of_table:
  "map rate (standardRatesTable K) =
     [50, 75, 110, 134, 150, 300, 600, 1200, 1800, 2000, 2400, 3600, 4800, 7200, 9600, 19200,
      38400, 57600, 115200, 230400, 460800, 576000, 921600, 1152000, 4000000]"
  by (simp add: standardRatesTable_def)

lemma length_table: "length (standardRatesTable K) = 25"
  by (simp add: standardRatesTable_def)

lemma table_sorted: "sorted_wrt (<) (map rate (standardRatesTable K))"
  unfolding rates_of_table by simp

lemma sorted_nth_less:
  assumes "sorted_wrt (<) (map rate tbl)" "i < j" "j < length tbl"
  shows "rate (tbl ! i) < rate (tbl ! j)"
  using assms sorted_wrt_nth_less [of "(<)" "map rate tbl" i j] by simp

lemma qLowerBound_spec:
  assumes "sorted_wrt (<) (map rate tbl)" "b + n \<le> length tbl"
  shows "b \<le> qLowerBound tbl b n v \<and> qLowerBound tbl b n v \<le> b + n
    \<and> (\<forall>i. b \<le> i \<and> i < qLowerBound tbl b n v \<longrightarrow> rate (tbl ! i) < rate v)
    \<and> (\<forall>i. qLowerBound tbl b n v \<le> i \<and> i < b + n \<longrightarrow> rate v \<le> rate (tbl ! i))"
  using assms
proof (induction tbl b n v rule: qLowerBound.induct)
  case (1 tbl b n v)
  let ?m = "b + n div 2"
  show ?case
  proof (cases "0 < n")
    case False
    then show ?thesis by (simp add: qLowerBound.simps [of tbl b n v])
  next
    case n: True
    then have m: "?m < b + n" by simp
    show ?thesis
    proof (cases "RatePair_less (tbl ! ?m) v")
      case True
      have eq: "qLowerBound tbl b n v = qLowerBound tbl (?m + 1) (n - (n div 2 + 1)) v"
        using n True by (subst qLowerBound.simps) simp
      have le: "?m + 1 + (n - (n div 2 + 1)) \<le> length tbl"
        using "1.prems"(2) n by simp
      have end_eq: "?m + 1 + (n - (n div 2 + 1)) = b + n" using n by simp
      note IH = "1.IH"(1) [OF n True "1.prems"(1) le]
      have low: "rate (tbl ! i) < rate v" if "b \<le> i" "i \<le> ?m" for i
      proof (cases "i = ?m")
        case True
        then show ?thesis using \<open>RatePair_less (tbl ! ?m) v\<close> by (simp add: RatePair_less_def)
      next
        case False
        then have "i < ?m" using that by simp
        then have "rate (tbl ! i) < rate (tbl ! ?m)"
          using sorted_nth_less [OF "1.prems"(1), of i ?m] m "1.prems"(2) by simp
        then show ?thesis using \<open>RatePair_less (tbl ! ?m) v\<close> by (simp add: RatePair_less_def)
      qed
      define r where "r = qLowerBound tbl (?m + 1) (n - (n div 2 + 1)) v"
      have r1: "?m + 1 \<le> r" and r2: "r \<le> b + n"
        and r3: "\<And>i. ?m + 1 \<le> i \<Longrightarrow> i < r \<Longrightarrow> rate (tbl ! i) < rate v"
        and r4: "\<And>i. r \<le> i \<Longrightarrow> i < b + n \<Longrightarrow> rate v \<le> rate (tbl ! i)"
        using IH unfolding r_def [symmetric] end_eq by simp_all
      have a: "b \<le> r" using r1 by simp
      have c: "rate (tbl ! i) < rate v" if "b \<le> i" "i < r" for i
      proof (cases "i \<le> ?m")
        case True
        then show ?thesis using low that by simp
      next
        case False
        then show ?thesis using r3 [of i] that by simp
      qed
      show ?thesis
        unfolding eq r_def [symmetric] using a r2 c r4 by simp
    next
      case False
      have eq: "qLowerBound tbl b n v = qLowerBound tbl b (n div 2) v"
        using n False by (subst qLowerBound.simps) simp
      have le: "b + n div 2 \<le> length tbl" using "1.prems"(2) by simp
      note IH = "1.IH"(2) [OF n False "1.prems"(1) le]
      have high: "rate v \<le> rate (tbl ! i)" if "?m \<le> i" "i < b + n" for i
      proof (cases "i = ?m")
        case True
        then show ?thesis using False by (simp add: RatePair_less_def)
      next
        case neq: False
        then have "?m < i" using that by simp
        then have "rate (tbl ! ?m) < rate (tbl ! i)"
          using sorted_nth_less [OF "1.prems"(1), of ?m i] that "1.prems"(2) by simp
        then show ?thesis using False by (simp add: RatePair_less_def)
      qed
      define r where "r = qLowerBound tbl b (n div 2) v"
      have r1: "b \<le> r" and r2: "r \<le> ?m"
        and r3: "\<And>i. b \<le> i \<Longrightarrow> i < r \<Longrightarrow> rate (tbl ! i) < rate v"
        and r4: "\<And>i. r \<le> i \<Longrightarrow> i < ?m \<Longrightarrow> rate v \<le> rate (tbl ! i)"
        using IH unfolding r_def [symmetric] by simp_all
      have b: "r \<le> b + n" using r2 by simp
      have d: "rate v \<le> rate (tbl ! i)" if "r \<le> i" "i < b + n" for i
      proof (cases "i < ?m")
        case True
        then show ?thesis using r4 that by simp
      next
        case False
        then show ?thesis using high [of i] that by simp
      qed
      show ?thesis
        unfolding eq r_def [symmetric] using r1 b r3 d by simp
    qed
  qed
qed


lemma qBinaryFind_found:
  assumes "sorted_wrt (<) (map rate tbl)" "i < length tbl" "rate v = rate (tbl ! i)"
  shows "qBinaryFind tbl v = i"
proof -
  define r where "r = qLowerBound tbl 0 (length tbl) v"
  have s: "r \<le> length tbl"
    "\<And>j. j < r \<Longrightarrow> rate (tbl ! j) < rate v"
    "\<And>j. r \<le> j \<Longrightarrow> j < length tbl \<Longrightarrow> rate v \<le> rate (tbl ! j)"
    using qLowerBound_spec [OF assms(1), of 0 "length tbl" v] unfolding r_def by simp_all
  have "\<not> i < r" using s(2) [of i] assms(3) by auto
  moreover have "\<not> r < i"
  proof
    assume "r < i"
    then have "rate (tbl ! r) < rate (tbl ! i)"
      using sorted_nth_less [OF assms(1), of r i] assms(2) by simp
    moreover have "rate v \<le> rate (tbl ! r)" using s(3) [of r] \<open>r < i\<close> assms(2) by simp
    ultimately show False using assms(3) by simp
  qed
  ultimately have "qLowerBound tbl 0 (length tbl) v = i" unfolding r_def by simp
  then show ?thesis
    using assms(2,3) by (simp add: qBinaryFind_def RatePair_less_def)
qed

lemma qBinaryFind_missing:
  assumes "sorted_wrt (<) (map rate tbl)" "rate v \<notin> set (map rate tbl)"
  shows "qBinaryFind tbl v = length tbl"
proof -
  define r where "r = qLowerBound tbl 0 (length tbl) v"
  have s: "r \<le> length tbl"
    "\<And>j. r \<le> j \<Longrightarrow> j < length tbl \<Longrightarrow> rate v \<le> rate (tbl ! j)"
    using qLowerBound_spec [OF assms(1), of 0 "length tbl" v] unfolding r_def by simp_all
  show ?thesis
  proof (cases "r = length tbl")
    case True
    then have "qLowerBound tbl 0 (length tbl) v = length tbl" unfolding r_def .
    then show ?thesis by (simp add: qBinaryFind_def)
  next
    case False
    then have lt: "r < length tbl" using s(1) by simp
    then have "rate v \<le> rate (tbl ! r)" using s(2) [of r] by simp
    moreover have "rate (tbl ! r) \<in> set (map rate tbl)" using lt by simp
    ultimately have "rate v < rate (tbl ! r)"
      using assms(2) by (cases "rate v = rate (tbl ! r)") auto
    then have "RatePair_less v (tbl ! qLowerBound tbl 0 (length tbl) v)"
      unfolding r_def by (simp add: RatePair_less_def)
    then show ?thesis by (simp add: qBinaryFind_def)
  qed
qed

lemma qFind_missing:
  "setting v \<notin> set (map setting tbl) \<Longrightarrow> qFind tbl v = length tbl"
  by (induction tbl) (auto simp: RatePair_eq_def)

lemma qFind_distinct:
  "distinct (map setting tbl) \<Longrightarrow> i < length tbl \<Longrightarrow> setting v = setting (tbl ! i)
    \<Longrightarrow> qFind tbl v = i"
proof (induction tbl arbitrary: i)
  case Nil
  then show ?case by simp
next
  case (Cons x xs)
  show ?case
  proof (cases i)
    case 0
    then show ?thesis using Cons.prems by (simp add: RatePair_eq_def)
  next
    case (Suc k)
    then have "setting (xs ! k) \<in> set (map setting xs)" using Cons.prems by simp
    then have "setting x \<noteq> setting v" using Cons.prems Suc by auto
    then show ?thesis using Cons Suc by (simp add: RatePair_eq_def)
  qed
qed

lemma settingFromRate_nth:
  "i < length (standardRatesTable K) \<Longrightarrow>
    settingFromRate K (rate (standardRatesTable K ! i)) = setting (standardRatesTable K ! i)"
  using qBinaryFind_found [OF table_sorted, of i K "\<lparr> rate = rate (standardRatesTable K ! i), setting = 0 \<rparr>"]
  by (simp add: settingFromRate_def)

lemma settingFromRate_missing:
  "r \<notin> set (standardRates K) \<Longrightarrow> settingFromRate K r = 0"
  using qBinaryFind_missing [OF table_sorted, of "\<lparr> rate = r, setting = 0 \<rparr>" K]
  by (simp add: settingFromRate_def standardRates_def)

lemma rateFromSetting_nth:
  "distinct (map setting (standardRatesTable K)) \<Longrightarrow> i < length (standardRatesTable K) \<Longrightarrow>
    rateFromSetting K (setting (standardRatesTable K ! i)) = rate (standardRatesTable K ! i)"
  using qFind_distinct [of "standardRatesTable K" i "\<lparr> rate = 0, setting = setting (standardRatesTable K ! i) \<rparr>"]
  by (simp add: rateFromSetting_def)

lemma rateFromSetting_missing:
  "s \<notin> set (map setting (standardRatesTable K)) \<Longrightarrow> rateFromSetting K s = 0"
  using qFind_missing [of "\<lparr> rate = 0, setting = s \<rparr>" "standardRatesTable K"]
  by (simp add: rateFromSetting_def)

text \<open>
  Claim C9: the sequence of numeric rates that \<^verbatim>\<open>standardRates\<close> returns is strictly
  ascending and has no duplicates, whatever the values of the native enumerators: the static
  table is sorted strictly by rate, as the binary search of \<^verbatim>\<open>settingFromRate\<close> needs.
\<close>

theorem standardRates_strictly_ascending:
  "sorted_wrt (<) (standardRates K) \<and> distinct (standardRates K)"
  unfolding standardRates_def rates_of_table by simp

text \<open>
  Claim C5: when the native tokens of the table are pairwise different, both lookups round-trip
  over the table: for every rate \<open>R\<close> of the table \<^verbatim>\<open>rateFromSetting\<close> of
  \<^verbatim>\<open>settingFromRate\<close> of \<open>R\<close> is \<open>R\<close>, and for every native token \<open>T\<close> of the table
  \<^verbatim>\<open>settingFromRate\<close> of \<^verbatim>\<open>rateFromSetting\<close> of \<open>T\<close> is \<open>T\<close>.
\<close>

theorem rate_table_round_trip:
  assumes "distinct (map setting (standardRatesTable K))"
  shows "(\<forall>R \<in> set (standardRates K). rateFromSetting K (settingFromRate K R) = R)
    \<and> (\<forall>T \<in> set (map setting (standardRatesTable K)).
          settingFromRate K (rateFromSetting K T) = T)"
proof (intro conjI ballI)
  fix R assume "R \<in> set (standardRates K)"
  then obtain i where i: "i < length (standardRatesTable K)" "R = rate (standardRatesTable K ! i)"
    unfolding standardRates_def by (auto simp: in_set_conv_nth)
  show "rateFromSetting K (settingFromRate K R) = R"
    using settingFromRate_nth [OF i(1)] rateFromSetting_nth [OF assms i(1)] i(2) by simp
next
  fix T assume "T \<in> set (map setting (standardRatesTable K))"
  then obtain i where i: "i < length (standardRatesTable K)" "T = setting (standardRatesTable K ! i)"
    by (auto simp: in_set_conv_nth)
  show "settingFromRate K (rateFromSetting K T) = T"
    using settingFromRate_nth [OF i(1)] rateFromSetting_nth [OF assms i(1)] i(2) by simp
qed

lemma symbian_settings:
  "map setting (standardRatesTable symbian) =
    [0, 1, 2, 3, 4, 5, 6, 7, 8, 9, 10, 11, 12, 13, 14, 15, 16, 17, 18, 19, 20, 21, 24, 22, 23]"
  by (simp add: standardRatesTable_def symbian_def)

lemma symbian_settings_distinct: "distinct (map setting (standardRatesTable symbian))"
  unfolding symbian_settings by simp

text \<open>The Symbian numbering has pairwise different tokens; 9600 baud is token 14 there.\<close>

theorem rate_table_round_trip_witness:
  "distinct (map setting (standardRatesTable symbian))
   \<and> 9600 \<in> set (standardRates symbian)
   \<and> rateFromSetting symbian (settingFromRate symbian 9600) = 9600
   \<and> 14 \<in> set (map setting (standardRatesTable symbian))
   \<and> settingFromRate symbian (rateFromSetting symbian 14) = 14"
proof -
  have d: "distinct (map setting (standardRatesTable symbian))"
    by (rule symbian_settings_distinct)
  have r: "9600 \<in> set (standardRates symbian)"
    by (simp add: standardRates_def rates_of_table)
  have t: "14 \<in> set (map setting (standardRatesTable symbian))"
    unfolding symbian_settings by simp
  show ?thesis
    using rate_table_round_trip [OF d] d r t by blast
qed

section \<open>The configuration setters\<close>

text \<open>
  Claim C6: every setter fails with \<open>UnsupportedPortOperationError\<close> and returns false on an
  invalid input: \<^verbatim>\<open>setRate\<close> for a direction other than \<open>AllDirections\<close> and for a rate that
  is not in the table, \<^verbatim>\<open>setDataBits\<close> outside 5 to 8, \<^verbatim>\<open>setParity\<close> outside the five
  kinds, \<^verbatim>\<open>setStopBits\<close> outside one and two, \<^verbatim>\<open>setFlowControl\<close> outside none, hardware
  and software. Nothing else of the engine changes.
\<close>

theorem setters_reject_invalid:
  "(dir \<noteq> AllDirections \<longrightarrow>
      setRate K baud dir r s = (False, setError UnsupportedPortOperationError s))
   \<and> (baud \<notin> set (standardRates K) \<longrightarrow>
      setRate K baud dir r s = (False, setError UnsupportedPortOperationError s))
   \<and> (d \<notin> {Data5, Data6, Data7, Data8} \<longrightarrow>
      setDataBits d r s = (False, setError UnsupportedPortOperationError s))
   \<and> (p \<notin> {NoParity, EvenParity, OddParity, MarkParity, SpaceParity} \<longrightarrow>
      setParity p r s = (False, setError UnsupportedPortOperationError s))
   \<and> (b \<notin> {OneStop, TwoStop} \<longrightarrow>
      setStopBits b r s = (False, setError UnsupportedPortOperationError s))
   \<and> (f \<notin> {NoFlowControl, HardwareControl, SoftwareControl} \<longrightarrow>
      setFlowControl K f r s = (False, setError UnsupportedPortOperationError s))"
proof (intro conjI impI)
  show "setRate K baud dir r s = (False, setError UnsupportedPortOperationError s)"
    if "dir \<noteq> AllDirections"
    using that by (simp add: setRate_def)
  show "setRate K baud dir r s = (False, setError UnsupportedPortOperationError s)"
    if "baud \<notin> set (standardRates K)"
    using settingFromRate_missing [OF that] by (simp add: setRate_def)
  show "setDataBits d r s = (False, setError UnsupportedPortOperationError s)"
    if "d \<notin> {Data5, Data6, Data7, Data8}"
    using that by (cases d) (simp_all add: setDataBits_def)
  show "setParity p r s = (False, setError UnsupportedPortOperationError s)"
    if "p \<notin> {NoParity, EvenParity, OddParity, MarkParity, SpaceParity}"
    using that by (cases p) (simp_all add: setParity_def)
  show "setStopBits b r s = (False, setError UnsupportedPortOperationError s)"
    if "b \<notin> {OneStop, TwoStop}"
    using that by (cases b) (simp_all add: setStopBits_def)
  show "setFlowControl K f r s = (False, setError UnsupportedPortOperationError s)"
    if "f \<notin> {NoFlowControl, HardwareControl, SoftwareControl}"
    using that by (cases f) (simp_all add: setFlowControl_def)
qed

lemma symbian_rates: "standardRates symbian =
     [50, 75, 110, 134, 150, 300, 600, 1200, 1800, 2000, 2400, 3600, 4800, 7200, 9600, 19200,
      38400, 57600, 115200, 230400, 460800, 576000, 921600, 1152000, 4000000]"
  by (simp add: standardRates_def rates_of_table)

text \<open>One invalid input for each setter, on an opened port.\<close>

theorem setters_reject_invalid_witness:
  "Input \<noteq> AllDirections
   \<and> setRate symbian 9600 Input KErrNone opened_port
       = (False, setError UnsupportedPortOperationError opened_port)
   \<and> 12345 \<notin> set (standardRates symbian)
   \<and> setRate symbian 12345 AllDirections KErrNone opened_port
       = (False, setError UnsupportedPortOperationError opened_port)
   \<and> DataBits_other 4 \<notin> {Data5, Data6, Data7, Data8}
   \<and> setDataBits (DataBits_other 4) KErrNone opened_port
       = (False, setError UnsupportedPortOperationError opened_port)
   \<and> UnknownParity \<notin> {NoParity, EvenParity, OddParity, MarkParity, SpaceParity}
   \<and> setParity UnknownParity KErrNone opened_port
       = (False, setError UnsupportedPortOperationError opened_port)
   \<and> StopBits_other 3 \<notin> {OneStop, TwoStop}
   \<and> setStopBits (StopBits_other 3) KErrNone opened_port
       = (False, setError UnsupportedPortOperationError opened_port)
   \<and> UnknownFlowControl \<notin> {NoFlowControl, HardwareControl, SoftwareControl}
   \<and> setFlowControl symbian UnknownFlowControl KErrNone opened_port
       = (False, setError UnsupportedPortOperationError opened_port)"
proof -
  have a: "12345 \<notin> set (standardRates symbian)"
    unfolding symbian_rates by simp
  show ?thesis
    using a
      setters_reject_invalid [where dir = Input and K = symbian and baud = 9600
        and r = KErrNone and s = opened_port and d = "DataBits_other 4" and p = UnknownParity
        and b = "StopBits_other 3" and f = UnknownFlowControl]
      setters_reject_invalid [where dir = AllDirections and K = symbian and baud = 12345
        and r = KErrNone and s = opened_port and d = "DataBits_other 4" and p = UnknownParity
        and b = "StopBits_other 3" and f = UnknownFlowControl]
    by simp
qed

lemma updateCommConfig_pushed:
  "updated_then_pushed s (m_currentSettings s') (updateCommConfig r s') = (calls s' = calls s)"
  by (simp add: updated_then_pushed_def updateCommConfig_def do_call_def setError_def Let_def)

lemma setError_rejected: "rejected_untouched s (False, setError e s)"
  by (simp add: rejected_untouched_def setError_def)

text \<open>
  Claim C10: for each of the five setters, when the validation of the requested value fails the
  call returns false, leaves \<open>m_currentSettings\<close> as it was and makes no call to the device.
  When it passes, the working copy is first updated, in the setter's own field and to the
  native value of the request, and then that updated copy is pushed with one
  \<^verbatim>\<open>SetConfig\<close>, whatever the device answers. So a push is made only after a valid update.
\<close>

theorem setters_validate_before_push:
  "(if dir = AllDirections \<and> settingFromRate K baud \<noteq> 0
    then updated_then_pushed s ((m_currentSettings s)\<lparr> iRate := settingFromRate K baud \<rparr>)
           (setRate K baud dir r s)
    else rejected_untouched s (setRate K baud dir r s))
   \<and> updated_then_pushed s ((m_currentSettings s)\<lparr> iDataBits := EData5 \<rparr>) (setDataBits Data5 r s)
   \<and> updated_then_pushed s ((m_currentSettings s)\<lparr> iDataBits := EData6 \<rparr>) (setDataBits Data6 r s)
   \<and> updated_then_pushed s ((m_currentSettings s)\<lparr> iDataBits := EData7 \<rparr>) (setDataBits Data7 r s)
   \<and> updated_then_pushed s ((m_currentSettings s)\<lparr> iDataBits := EData8 \<rparr>) (setDataBits Data8 r s)
   \<and> (d \<notin> {Data5, Data6, Data7, Data8} \<longrightarrow> rejected_untouched s (setDataBits d r s))
   \<and> updated_then_pushed s ((m_currentSettings s)\<lparr> iParity := EParityNone \<rparr>)
        (setParity NoParity r s)
   \<and> updated_then_pushed s ((m_currentSettings s)\<lparr> iParity := EParityEven \<rparr>)
        (setParity EvenParity r s)
   \<and> updated_then_pushed s ((m_currentSettings s)\<lparr> iParity := EParityOdd \<rparr>)
        (setParity OddParity r s)
   \<and> updated_then_pushed s ((m_currentSettings s)\<lparr> iParity := EParityMark \<rparr>)
        (setParity MarkParity r s)
   \<and> updated_then_pushed s ((m_currentSettings s)\<lparr> iParity := EParitySpace \<rparr>)
        (setParity SpaceParity r s)
   \<and> (p \<notin> {NoParity, EvenParity, OddParity, MarkParity, SpaceParity} \<longrightarrow>
        rejected_untouched s (setParity p r s))
   \<and> updated_then_pushed s ((m_currentSettings s)\<lparr> iStopBits := EStop1 \<rparr>)
        (setStopBits OneStop r s)
   \<and> updated_then_pushed s ((m_currentSettings s)\<lparr> iStopBits := EStop2 \<rparr>)
        (setStopBits TwoStop r s)
   \<and> (b \<notin> {OneStop, TwoStop} \<longrightarrow> rejected_untouched s (setStopBits b r s))
   \<and> updated_then_pushed s ((m_currentSettings s)\<lparr> iHandshake := KConfigFailDSR K \<rparr>)
        (setFlowControl K NoFlowControl r s)
   \<and> updated_then_pushed s
        ((m_currentSettings s)\<lparr> iHandshake := KConfigObeyCTS K OR KConfigFreeRTS K \<rparr>)
        (setFlowControl K HardwareControl r s)
   \<and> updated_then_pushed s
        ((m_currentSettings s)\<lparr> iHandshake := KConfigObeyXoff K OR KConfigSendXoff K \<rparr>)
        (setFlowControl K SoftwareControl r s)
   \<and> (f \<notin> {NoFlowControl, HardwareControl, SoftwareControl} \<longrightarrow>
        rejected_untouched s (setFlowControl K f r s))"
proof -
  have push: "updated_then_pushed s c (updateCommConfig r (s\<lparr> m_currentSettings := c \<rparr>))" for c
    using updateCommConfig_pushed [of s "s\<lparr> m_currentSettings := c \<rparr>" r] by simp
  have rate: "if dir = AllDirections \<and> settingFromRate K baud \<noteq> 0
    then updated_then_pushed s ((m_currentSettings s)\<lparr> iRate := settingFromRate K baud \<rparr>)
           (setRate K baud dir r s)
    else rejected_untouched s (setRate K baud dir r s)"
    using push by (simp add: setRate_def setError_rejected Let_def)
  have data: "updated_then_pushed s ((m_currentSettings s)\<lparr> iDataBits := EData5 \<rparr>)
        (setDataBits Data5 r s)"
    "updated_then_pushed s ((m_currentSettings s)\<lparr> iDataBits := EData6 \<rparr>) (setDataBits Data6 r s)"
    "updated_then_pushed s ((m_currentSettings s)\<lparr> iDataBits := EData7 \<rparr>) (setDataBits Data7 r s)"
    "updated_then_pushed s ((m_currentSettings s)\<lparr> iDataBits := EData8 \<rparr>) (setDataBits Data8 r s)"
    using push by (simp_all add: setDataBits_def)
  have data_bad: "rejected_untouched s (setDataBits d r s)"
    if "d \<notin> {Data5, Data6, Data7, Data8}"
    using that by (cases d) (simp_all add: setDataBits_def setError_rejected)
  have par: "updated_then_pushed s ((m_currentSettings s)\<lparr> iParity := EParityNone \<rparr>)
        (setParity NoParity r s)"
    "updated_then_pushed s ((m_currentSettings s)\<lparr> iParity := EParityEven \<rparr>)
        (setParity EvenParity r s)"
    "updated_then_pushed s ((m_currentSettings s)\<lparr> iParity := EParityOdd \<rparr>)
        (setParity OddParity r s)"
    "updated_then_pushed s ((m_currentSettings s)\<lparr> iParity := EParityMark \<rparr>)
        (setParity MarkParity r s)"
    "updated_then_pushed s ((m_currentSettings s)\<lparr> iParity := EParitySpace \<rparr>)
        (setParity SpaceParity r s)"
    using push by (simp_all add: setParity_def)
  have par_bad: "rejected_untouched s (setParity p r s)"
    if "p \<notin> {NoParity, EvenParity, OddParity, MarkParity, SpaceParity}"
    using that by (cases p) (simp_all add: setParity_def setError_rejected)
  have stop: "updated_then_pushed s ((m_currentSettings s)\<lparr> iStopBits := EStop1 \<rparr>)
        (setStopBits OneStop r s)"
    "updated_then_pushed s ((m_currentSettings s)\<lparr> iStopBits := EStop2 \<rparr>)
        (setStopBits TwoStop r s)"
    using push by (simp_all add: setStopBits_def)
  have stop_bad: "rejected_untouched s (setStopBits b r s)" if "b \<notin> {OneStop, TwoStop}"
    using that by (cases b) (simp_all add: setStopBits_def setError_rejected)
  have flw: "updated_then_pushed s ((m_currentSettings s)\<lparr> iHandshake := KConfigFailDSR K \<rparr>)
        (setFlowControl K NoFlowControl r s)"
    "updated_then_pushed s
        ((m_currentSettings s)\<lparr> iHandshake := KConfigObeyCTS K OR KConfigFreeRTS K \<rparr>)
        (setFlowControl K HardwareControl r s)"
    "updated_then_pushed s
        ((m_currentSettings s)\<lparr> iHandshake := KConfigObeyXoff K OR KConfigSendXoff K \<rparr>)
        (setFlowControl K SoftwareControl r s)"
    using push by (simp_all add: setFlowControl_def)
  have flw_bad: "rejected_untouched s (setFlowControl K f r s)"
    if "f \<notin> {NoFlowControl, HardwareControl, SoftwareControl}"
    using that by (cases f) (simp_all add: setFlowControl_def setError_rejected)
  show ?thesis
    using rate data data_bad par par_bad stop stop_bad flw flw_bad by blast
qed

lemma settingFromRate_symbian_50: "settingFromRate symbian 50 = 0"
  using settingFromRate_nth [of 0 symbian]
  by (simp add: length_table) (simp add: standardRatesTable_def symbian_def)

lemma settingFromRate_symbian_19200: "settingFromRate symbian 19200 = 15"
  using settingFromRate_nth [of 15 symbian]
  by (simp add: length_table) (simp add: standardRatesTable_def symbian_def)

lemma opened_port_settings:
  "m_currentSettings opened_port = settings_9600_8N1" "calls opened_port = []"
  by (simp_all add: opened_port_def closed_port_def)

text \<open>
  On a port opened at 9600 baud, 8 data bits, no parity, one stop bit and no flow control: a
  rejected call of each setter, and an accepted call of each setter that changes its field
  (19200 baud is token 15, the hardware masks together are \<open>0x104\<close>). The device refuses
  every push with code -5: the updated copy is in place and was pushed all the same.
\<close>

theorem setters_validate_before_push_witness:
  "rejected_untouched opened_port (setRate symbian 9600 Output KErrNone opened_port)
   \<and> rejected_untouched opened_port (setRate symbian 50 AllDirections KErrNone opened_port)
   \<and> m_currentSettings (snd (setRate symbian 19200 AllDirections (KErrCode (-5)) opened_port))
       = settings_9600_8N1\<lparr> iRate := 15 \<rparr>
   \<and> calls (snd (setRate symbian 19200 AllDirections (KErrCode (-5)) opened_port))
       = [RComm_SetConfig (settings_9600_8N1\<lparr> iRate := 15 \<rparr>)]
   \<and> iRate settings_9600_8N1 \<noteq> 15
   \<and> DataBits_other 4 \<notin> {Data5, Data6, Data7, Data8}
   \<and> rejected_untouched opened_port (setDataBits (DataBits_other 4) KErrNone opened_port)
   \<and> m_currentSettings (snd (setDataBits Data7 (KErrCode (-5)) opened_port))
       = settings_9600_8N1\<lparr> iDataBits := EData7 \<rparr>
   \<and> calls (snd (setDataBits Data7 (KErrCode (-5)) opened_port))
       = [RComm_SetConfig (settings_9600_8N1\<lparr> iDataBits := EData7 \<rparr>)]
   \<and> iDataBits settings_9600_8N1 \<noteq> EData7
   \<and> UnknownParity \<notin> {NoParity, EvenParity, OddParity, MarkParity, SpaceParity}
   \<and> rejected_untouched opened_port (setParity UnknownParity KErrNone opened_port)
   \<and> m_currentSettings (snd (setParity EvenParity (KErrCode (-5)) opened_port))
       = settings_9600_8N1\<lparr> iParity := EParityEven \<rparr>
   \<and> calls (snd (setParity EvenParity (KErrCode (-5)) opened_port))
       = [RComm_SetConfig (settings_9600_8N1\<lparr> iParity := EParityEven \<rparr>)]
   \<and> iParity settings_9600_8N1 \<noteq> EParityEven
   \<and> StopBits_other 3 \<notin> {OneStop, TwoStop}
   \<and> rejected_untouched opened_port (setStopBits (StopBits_other 3) KErrNone opened_port)
   \<and> m_currentSettings (snd (setStopBits TwoStop (KErrCode (-5)) opened_port))
       = settings_9600_8N1\<lparr> iStopBits := EStop2 \<rparr>
   \<and> calls (snd (setStopBits TwoStop (KErrCode (-5)) opened_port))
       = [RComm_SetConfig (settings_9600_8N1\<lparr> iStopBits := EStop2 \<rparr>)]
   \<and> iStopBits settings_9600_8N1 \<noteq> EStop2
   \<and> UnknownFlowControl \<notin> {NoFlowControl, HardwareControl, SoftwareControl}
   \<and> rejected_untouched opened_port (setFlowControl symbian UnknownFlowControl KErrNone opened_port)
   \<and> m_currentSettings (snd (setFlowControl symbian HardwareControl (KErrCode (-5)) opened_port))
       = settings_9600_8N1\<lparr> iHandshake := 0x104 \<rparr>
   \<and> calls (snd (setFlowControl symbian HardwareControl (KErrCode (-5)) opened_port))
       = [RComm_SetConfig (settings_9600_8N1\<lparr> iHandshake := 0x104 \<rparr>)]
   \<and> iHandshake settings_9600_8N1 \<noteq> 0x104"
proof -
  note bad = setters_validate_before_push [where dir = Output and K = symbian and baud = 9600
      and r = KErrNone and s = opened_port and d = "DataBits_other 4" and p = UnknownParity
      and b = "StopBits_other 3" and f = UnknownFlowControl]
  note zero = setters_validate_before_push [where dir = AllDirections and K = symbian
      and baud = 50 and r = KErrNone and s = opened_port and d = "DataBits_other 4"
      and p = UnknownParity and b = "StopBits_other 3" and f = UnknownFlowControl]
  note good = setters_validate_before_push [where dir = AllDirections and K = symbian
      and baud = 19200 and r = "KErrCode (-5)" and s = opened_port and d = "DataBits_other 4"
      and p = UnknownParity and b = "StopBits_other 3" and f = UnknownFlowControl]
  have old: "iRate settings_9600_8N1 \<noteq> 15" "iDataBits settings_9600_8N1 \<noteq> EData7"
    "iParity settings_9600_8N1 \<noteq> EParityEven" "iStopBits settings_9600_8N1 \<noteq> EStop2"
    "iHandshake settings_9600_8N1 \<noteq> 0x104"
    by (simp_all add: settings_9600_8N1_def)
  have hw: "KConfigObeyCTS symbian OR KConfigFreeRTS symbian = 0x104"
    by (simp add: symbian_def)
  show ?thesis
    using bad zero good old
    by (simp add: settingFromRate_symbian_50 settingFromRate_symbian_19200
        updated_then_pushed_def opened_port_settings hw)
qed

section \<open>Detection\<close>

lemma detect_frame:
  "dptr_error (detectDefaultSettings K s) = dptr_error s
   \<and> calls (detectDefaultSettings K s) = calls s
   \<and> m_descriptor (detectDefaultSettings K s) = m_descriptor s
   \<and> m_currentSettings (detectDefaultSettings K s) = m_currentSettings s
   \<and> m_restoredSettings (detectDefaultSettings K s) = m_restoredSettings s"
  by (simp add: detectDefaultSettings_def Let_def)

lemma detect_rate:
  "inputRate (dptr_options (detectDefaultSettings K s)) = rateFromSetting K (iRate (m_currentSettings s))
   \<and> outputRate (dptr_options (detectDefaultSettings K s)) = rateFromSetting K (iRate (m_currentSettings s))"
  by (simp add: detectDefaultSettings_def Let_def)

lemma detect_dataBits:
  "dataBits (dptr_options (detectDefaultSettings K s)) =
     (case iDataBits (m_currentSettings s) of EData5 \<Rightarrow> Data5 | EData6 \<Rightarrow> Data6
        | EData7 \<Rightarrow> Data7 | EData8 \<Rightarrow> Data8 | _ \<Rightarrow> UnknownDataBits)"
  by (simp add: detectDefaultSettings_def Let_def)

lemma detect_parity:
  "parity (dptr_options (detectDefaultSettings K s)) =
     (case iParity (m_currentSettings s) of EParityNone \<Rightarrow> NoParity | EParityEven \<Rightarrow> EvenParity
        | EParityOdd \<Rightarrow> OddParity | EParityMark \<Rightarrow> MarkParity | EParitySpace \<Rightarrow> SpaceParity
        | _ \<Rightarrow> UnknownParity)"
  by (simp add: detectDefaultSettings_def Let_def)

lemma detect_stopBits:
  "stopBits (dptr_options (detectDefaultSettings K s)) =
     (case iStopBits (m_currentSettings s) of EStop1 \<Rightarrow> OneStop | EStop2 \<Rightarrow> TwoStop
        | _ \<Rightarrow> UnknownStopBits)"
  by (simp add: detectDefaultSettings_def Let_def)

lemma detect_flow:
  "flow (dptr_options (detectDefaultSettings K s)) =
     (if (iHandshake (m_currentSettings s) AND (KConfigObeyXoff K OR KConfigSendXoff K))
           = (KConfigObeyXoff K OR KConfigSendXoff K) then SoftwareControl
      else if (iHandshake (m_currentSettings s) AND (KConfigObeyCTS K OR KConfigFreeRTS K))
           = (KConfigObeyCTS K OR KConfigFreeRTS K) then HardwareControl
      else if iHandshake (m_currentSettings s) AND KConfigFailDSR K \<noteq> 0 then NoFlowControl
      else UnknownFlowControl)"
  by (simp add: detectDefaultSettings_def Let_def)

text \<open>
  Claim C7: detection never fails (it records no error and makes no device call), and a native
  value with no mapping gives \<open>Unknown\<close> for its field (for the rate, whose portable type has
  no such tag, the value 0 of \<^verbatim>\<open>rateFromSetting\<close>). Flow control is decided in this order:
  both software bits set gives \<open>SoftwareControl\<close>; otherwise both hardware bits set gives
  \<open>HardwareControl\<close>; otherwise the fail-on-DSR marker gives \<open>NoFlowControl\<close>; otherwise
  \<open>UnknownFlowControl\<close>.
\<close>

theorem detectDefaultSettings_total:
  fixes K s
  defines "cur \<equiv> m_currentSettings s"
    and "s' \<equiv> detectDefaultSettings K s"
    and "sw \<equiv> KConfigObeyXoff K OR KConfigSendXoff K"
    and "hw \<equiv> KConfigObeyCTS K OR KConfigFreeRTS K"
  shows "dptr_error s' = dptr_error s \<and> calls s' = calls s
    \<and> (iRate cur \<notin> set (map setting (standardRatesTable K)) \<longrightarrow>
         inputRate (dptr_options s') = 0 \<and> outputRate (dptr_options s') = 0)
    \<and> (iDataBits cur \<notin> {EData5, EData6, EData7, EData8} \<longrightarrow>
         dataBits (dptr_options s') = UnknownDataBits)
    \<and> (iParity cur \<notin> {EParityNone, EParityEven, EParityOdd, EParityMark, EParitySpace} \<longrightarrow>
         parity (dptr_options s') = UnknownParity)
    \<and> (iStopBits cur \<notin> {EStop1, EStop2} \<longrightarrow> stopBits (dptr_options s') = UnknownStopBits)
    \<and> (iHandshake cur AND sw = sw \<longrightarrow> flow (dptr_options s') = SoftwareControl)
    \<and> (iHandshake cur AND sw \<noteq> sw \<and> iHandshake cur AND hw = hw \<longrightarrow>
         flow (dptr_options s') = HardwareControl)
    \<and> (iHandshake cur AND sw \<noteq> sw \<and> iHandshake cur AND hw \<noteq> hw
         \<and> iHandshake cur AND KConfigFailDSR K \<noteq> 0 \<longrightarrow>
         flow (dptr_options s') = NoFlowControl)
    \<and> (iHandshake cur AND sw \<noteq> sw \<and> iHandshake cur AND hw \<noteq> hw
         \<and> iHandshake cur AND KConfigFailDSR K = 0 \<longrightarrow>
         flow (dptr_options s') = UnknownFlowControl)"
proof (intro conjI impI)
  show "dptr_error s' = dptr_error s" "calls s' = calls s"
    unfolding s'_def by (simp_all add: detect_frame)
  show "inputRate (dptr_options s') = 0" "outputRate (dptr_options s') = 0"
    if "iRate cur \<notin> set (map setting (standardRatesTable K))"
    using rateFromSetting_missing [OF that] unfolding s'_def cur_def by (simp_all add: detect_rate)
  show "dataBits (dptr_options s') = UnknownDataBits"
    if "iDataBits cur \<notin> {EData5, EData6, EData7, EData8}"
    using that unfolding s'_def cur_def detect_dataBits
    by (cases "iDataBits (m_currentSettings s)") simp_all
  show "parity (dptr_options s') = UnknownParity"
    if "iParity cur \<notin> {EParityNone, EParityEven, EParityOdd, EParityMark, EParitySpace}"
    using that unfolding s'_def cur_def detect_parity
    by (cases "iParity (m_currentSettings s)") simp_all
  show "stopBits (dptr_options s') = UnknownStopBits" if "iStopBits cur \<notin> {EStop1, EStop2}"
    using that unfolding s'_def cur_def detect_stopBits
    by (cases "iStopBits (m_currentSettings s)") simp_all
  show "flow (dptr_options s') = SoftwareControl" if "iHandshake cur AND sw = sw"
    using that unfolding s'_def cur_def sw_def detect_flow by simp
  show "flow (dptr_options s') = HardwareControl"
    if "iHandshake cur AND sw \<noteq> sw \<and> iHandshake cur AND hw = hw"
    using that unfolding s'_def cur_def sw_def hw_def detect_flow by simp
  show "flow (dptr_options s') = NoFlowControl"
    if "iHandshake cur AND sw \<noteq> sw \<and> iHandshake cur AND hw \<noteq> hw
         \<and> iHandshake cur AND KConfigFailDSR K \<noteq> 0"
    using that unfolding s'_def cur_def sw_def hw_def detect_flow by simp
  show "flow (dptr_options s') = UnknownFlowControl"
    if "iHandshake cur AND sw \<noteq> sw \<and> iHandshake cur AND hw \<noteq> hw
         \<and> iHandshake cur AND KConfigFailDSR K = 0"
    using that unfolding s'_def cur_def sw_def hw_def detect_flow by simp
qed

lemma exotic_fields:
  "iRate (m_currentSettings (exotic_port h)) = 99"
  "iDataBits (m_currentSettings (exotic_port h)) = TDataBits_other 9"
  "iParity (m_currentSettings (exotic_port h)) = TParity_other 7"
  "iStopBits (m_currentSettings (exotic_port h)) = TStopBits_other 5"
  "iHandshake (m_currentSettings (exotic_port h)) = h"
  by (simp_all add: exotic_port_def)

lemma symbian_masks:
  "KConfigObeyXoff symbian = 1" "KConfigSendXoff symbian = 2" "KConfigObeyCTS symbian = 4"
  "KConfigFreeRTS symbian = 0x100" "KConfigFailDSR symbian = 0x20"
  by (simp_all add: symbian_def)

text \<open>
  Settings with no mapping in any field, on the Symbian numbering. With every handshake bit set
  (\<open>0x127\<close>) the software pair wins; \<open>0x125\<close> has the hardware pair and one software bit;
  \<open>0x21\<close> has the marker and one software bit; \<open>0x101\<close> has one bit of each pair only.
\<close>

theorem detectDefaultSettings_total_witness:
  "inputRate (dptr_options (detectDefaultSettings symbian (exotic_port 0x127))) = 0
   \<and> outputRate (dptr_options (detectDefaultSettings symbian (exotic_port 0x127))) = 0
   \<and> dataBits (dptr_options (detectDefaultSettings symbian (exotic_port 0x127))) = UnknownDataBits
   \<and> parity (dptr_options (detectDefaultSettings symbian (exotic_port 0x127))) = UnknownParity
   \<and> stopBits (dptr_options (detectDefaultSettings symbian (exotic_port 0x127))) = UnknownStopBits
   \<and> flow (dptr_options (detectDefaultSettings symbian (exotic_port 0x127))) = SoftwareControl
   \<and> flow (dptr_options (detectDefaultSettings symbian (exotic_port 0x125))) = HardwareControl
   \<and> flow (dptr_options (detectDefaultSettings symbian (exotic_port 0x21))) = NoFlowControl
   \<and> flow (dptr_options (detectDefaultSettings symbian (exotic_port 0x101))) = UnknownFlowControl"
proof -
  have r: "(99::int) \<notin> set (map setting (standardRatesTable symbian))"
    unfolding symbian_settings by simp
  show ?thesis
    using r detectDefaultSettings_total [where s = "exotic_port 0x127" and K = symbian]
      detectDefaultSettings_total [where s = "exotic_port 0x125" and K = symbian]
      detectDefaultSettings_total [where s = "exotic_port 0x21" and K = symbian]
      detectDefaultSettings_total [where s = "exotic_port 0x101" and K = symbian]
    by (simp add: exotic_fields symbian_masks)
qed

section \<open>Opening and closing the port\<close>

lemma open_fields:
  "m_descriptor (do_call c s) = m_descriptor s" "calls (do_call c s) = calls s @ [c]"
  "m_descriptor (setError e s) = m_descriptor s" "calls (setError e s) = calls s"
  "dptr_error (setError e s) = e" "dptr_error (do_call c s) = dptr_error s"
  "m_restoredSettings (do_call c s) = m_restoredSettings s"
  "m_restoredSettings (setError e s) = m_restoredSettings s"
  by (simp_all add: do_call_def setError_def)

text \<open>
  Claim C8: \<^verbatim>\<open>close\<close> always releases the handle: its last call is \<^verbatim>\<open>RComm::Close\<close>.
  When restore-on-close is set it first writes \<open>m_restoredSettings\<close> to the device, and the
  result of that write changes nothing: the state after \<^verbatim>\<open>close\<close> is the same whatever the
  write returns. \<open>m_restoredSettings\<close> holds what \<^verbatim>\<open>RComm::Config\<close> read when \<^verbatim>\<open>open\<close>
  succeeded.
\<close>

theorem close_releases_handle:
  "close r s = close KErrNone s
   \<and> m_descriptor (close r s) = False
   \<and> calls (close r s) = calls s
        @ (if restoreSettingsOnClose (dptr_options s)
           then [RComm_SetConfig (m_restoredSettings s)] else [])
        @ [RComm_Close]
   \<and> (fst (open K location env s0) \<longrightarrow>
        m_descriptor (snd (open K location env s0))
        \<and> m_restoredSettings (snd (open K location env s0)) = config_read env)"
proof (intro conjI impI)
  show "m_descriptor (close r s) = False"
    by (simp add: close_def Let_def)
  show "calls (close r s) = calls s
        @ (if restoreSettingsOnClose (dptr_options s)
           then [RComm_SetConfig (m_restoredSettings s)] else [])
        @ [RComm_Close]"
    by (simp add: close_def Let_def do_call_def)
  show "close r s = close KErrNone s"
    by (simp add: close_def)
  assume ok: "fst (open K location env s0)"
  show "m_descriptor (snd (open K location env s0))"
    using ok by (auto simp: open_def Let_def detect_frame open_fields split: if_splits TInt.splits)
  show "m_restoredSettings (snd (open K location env s0)) = config_read env"
    using ok by (auto simp: open_def Let_def detect_frame open_fields split: if_splits TInt.splits)
qed


text \<open>A successful \<^verbatim>\<open>open\<close>, and a \<^verbatim>\<open>close\<close> whose restore write fails.\<close>

theorem close_releases_handle_witness:
  "fst (open symbian ''COMM::0'' all_accepted closed_port)
   \<and> m_descriptor (snd (open symbian ''COMM::0'' all_accepted closed_port))
   \<and> m_restoredSettings (snd (open symbian ''COMM::0'' all_accepted closed_port)) = settings_9600_8N1
   \<and> m_descriptor (close (KErrCode (-2)) opened_port) = False
   \<and> calls (close (KErrCode (-2)) opened_port) = [RComm_SetConfig settings_9600_8N1, RComm_Close]"
proof -
  have ok: "fst (open symbian ''COMM::0'' all_accepted closed_port)"
    by (simp add: open_def loadDevices_def all_accepted_def Let_def)
  have r: "restoreSettingsOnClose (dptr_options opened_port)"
    "m_restoredSettings opened_port = settings_9600_8N1" "calls opened_port = []"
    by (simp_all add: opened_port_def closed_port_def)
  have c: "config_read all_accepted = settings_9600_8N1"
    by (simp add: all_accepted_def)
  note t = close_releases_handle [of "KErrCode (-2)" opened_port symbian "''COMM::0''"
        all_accepted closed_port]
  have o: "m_descriptor (snd (open symbian ''COMM::0'' all_accepted closed_port))
    \<and> m_restoredSettings (snd (open symbian ''COMM::0'' all_accepted closed_port))
        = config_read all_accepted"
    using t ok by blast
  have d: "m_descriptor (close (KErrCode (-2)) opened_port) = False"
    using t by blast
  have "calls (close (KErrCode (-2)) opened_port) = calls opened_port
        @ (if restoreSettingsOnClose (dptr_options opened_port)
           then [RComm_SetConfig (m_restoredSettings opened_port)] else [])
        @ [RComm_Close]"
    using t by blast
  then have l: "calls (close (KErrCode (-2)) opened_port)
      = [RComm_SetConfig settings_9600_8N1, RComm_Close]"
    using r by simp
  show ?thesis
    using ok o c d l by simp
qed

text \<open>
  Claim C1, as the code has it: when the exclusive open of the device fails, \<^verbatim>\<open>open\<close>
  returns false without a handle, and records \<open>NoSuchDeviceError\<close> for
  \<^verbatim>\<open>KErrPermissionDenied\<close>, \<open>PermissionDeniedError\<close> for \<^verbatim>\<open>KErrLocked\<close> and
  \<^verbatim>\<open>KErrAccessDenied\<close>, and \<open>UnknownPortError\<close> for every other code.
\<close>

theorem open_failure_classification:
  assumes "loadDevices (r_LoadPhysicalDevice env) (r_LoadLogicalDevice env) (r_StartC32 env)"
    and "r_Connect env = KErrNone" and "r_LoadCommModule env = KErrNone"
    and "r_Open env \<noteq> KErrNone"
  shows "fst (open K location env s) = False
    \<and> dptr_error (snd (open K location env s)) =
         (if r_Open env = KErrPermissionDenied then NoSuchDeviceError
          else if r_Open env = KErrLocked \<or> r_Open env = KErrAccessDenied
          then PermissionDeniedError
          else UnknownPortError)
    \<and> m_descriptor (snd (open K location env s)) = m_descriptor s"
  using assms by (cases "r_Open env") (simp_all add: open_def Let_def open_fields)

text \<open>A locked port, and a port that is not found (code -1).\<close>

theorem open_failure_classification_witness:
  "loadDevices (r_LoadPhysicalDevice (all_accepted\<lparr> r_Open := KErrLocked \<rparr>))
     (r_LoadLogicalDevice (all_accepted\<lparr> r_Open := KErrLocked \<rparr>))
     (r_StartC32 (all_accepted\<lparr> r_Open := KErrLocked \<rparr>))
   \<and> fst (open symbian ''COMM::0'' (all_accepted\<lparr> r_Open := KErrLocked \<rparr>) closed_port) = False
   \<and> dptr_error (snd (open symbian ''COMM::0'' (all_accepted\<lparr> r_Open := KErrLocked \<rparr>) closed_port))
       = PermissionDeniedError
   \<and> dptr_error (snd (open symbian ''COMM::0'' (all_accepted\<lparr> r_Open := KErrCode (-1) \<rparr>) closed_port))
       = UnknownPortError"
proof -
  have l: "loadDevices (r_LoadPhysicalDevice (all_accepted\<lparr> r_Open := e \<rparr>))
     (r_LoadLogicalDevice (all_accepted\<lparr> r_Open := e \<rparr>))
     (r_StartC32 (all_accepted\<lparr> r_Open := e \<rparr>))" for e
    by (simp add: loadDevices_def all_accepted_def)
  have c: "r_Connect (all_accepted\<lparr> r_Open := e \<rparr>) = KErrNone"
    "r_LoadCommModule (all_accepted\<lparr> r_Open := e \<rparr>) = KErrNone" for e
    by (simp_all add: all_accepted_def)
  show ?thesis
    using l [of KErrLocked]
      open_failure_classification [OF l [of KErrLocked] c [of KErrLocked], of symbian "''COMM::0''" closed_port]
      open_failure_classification [OF l [of "KErrCode (-1)"] c [of "KErrCode (-1)"], of symbian "''COMM::0''" closed_port]
    by simp
qed

text \<open>
  Claim C1 as stated fails: the permission error \<^verbatim>\<open>KErrPermissionDenied\<close> is recorded as
  \<open>NoSuchDeviceError\<close>, not as \<open>PermissionDeniedError\<close>.
\<close>

theorem open_permission_denied_counterexample:
  "dptr_error (snd (open symbian ''COMM::0'' (all_accepted\<lparr> r_Open := KErrPermissionDenied \<rparr>) closed_port))
     = NoSuchDeviceError
   \<and> dptr_error (snd (open symbian ''COMM::0'' (all_accepted\<lparr> r_Open := KErrPermissionDenied \<rparr>) closed_port))
     \<noteq> PermissionDeniedError"
  by (simp add: open_def loadDevices_def all_accepted_def Let_def open_fields)

lemma open_config_failure:
  assumes "loadDevices (r_LoadPhysicalDevice env) (r_LoadLogicalDevice env) (r_StartC32 env)"
    and "r_Connect env = KErrNone" and "r_LoadCommModule env = KErrNone"
    and "r_Open env = KErrNone" and "r_Config env \<noteq> KErrNone"
  shows "fst (open K location env s) = False
    \<and> dptr_error (snd (open K location env s)) = UnknownPortError
    \<and> m_descriptor (snd (open K location env s)) = True
    \<and> calls (snd (open K location env s)) = calls s @ [RCommServ_Connect,
         RCommServ_LoadCommModule (moduleName location), RComm_Open location, RComm_Config]"
  using assms by (simp add: open_def Let_def open_fields)

text \<open>
  Claim C2 at a concrete input: the device opens and \<^verbatim>\<open>RComm::Config\<close> then fails with
  code -2. \<^verbatim>\<open>open\<close> returns false with \<open>UnknownPortError\<close>, the handle is still held and
  \<^verbatim>\<open>RComm::Close\<close> was never called.
\<close>

theorem open_config_failure_keeps_handle:
  "open symbian ''COMM::0'' (all_accepted\<lparr> r_Config := KErrCode (-2) \<rparr>) closed_port
     = (False, closed_port\<lparr> m_descriptor := True, dptr_error := UnknownPortError,
          calls := [RCommServ_Connect, RCommServ_LoadCommModule ''ECUART'',
            RComm_Open ''COMM::0'', RComm_Config] \<rparr>)
   \<and> RComm_Close \<notin> set [RCommServ_Connect, RCommServ_LoadCommModule ''ECUART'',
            RComm_Open ''COMM::0'', RComm_Config]"
  by (simp add: open_def loadDevices_def all_accepted_def Let_def do_call_def setError_def
      closed_port_def moduleName_def)

section \<open>The readiness wait\<close>

lemma select_timer_first:
  assumes "timerStatus env \<noteq> KRequestPending"
    and "\<not> (0 < timeout \<and> \<not> m_selectTimer s \<and> r_CreateLocal env \<noteq> KErrNone)"
  shows "fst (select timeout checkRead checkWrite forRead forWrite env s) = False
    \<and> fst (snd (select timeout checkRead checkWrite forRead forWrite env s)) = False
    \<and> fst (snd (snd (select timeout checkRead checkWrite forRead forWrite env s))) = False
    \<and> calls (snd (snd (snd (select timeout checkRead checkWrite forRead forWrite env s))))
       = calls s
         @ (if 0 < timeout \<and> \<not> m_selectTimer s then [RTimer_CreateLocal] else [])
         @ (if 0 < timeout then [RTimer_HighRes timeout] else [])
         @ (if checkRead then [RComm_NotifyDataAvailable] else [])
         @ (if checkWrite then [RComm_NotifyOutputEmpty] else [])
         @ [User_WaitForNRequest]"
  using assms by (auto simp: select_def Let_def do_call_def)

lemma select_source_first:
  assumes "timerStatus env = KRequestPending"
    and "\<not> (0 < timeout \<and> \<not> m_selectTimer s \<and> r_CreateLocal env \<noteq> KErrNone)"
  shows "fst (select timeout checkRead checkWrite forRead forWrite env s) = True
    \<and> calls (snd (snd (snd (select timeout checkRead checkWrite forRead forWrite env s))))
       = calls s
         @ (if 0 < timeout \<and> \<not> m_selectTimer s then [RTimer_CreateLocal] else [])
         @ (if 0 < timeout then [RTimer_HighRes timeout] else [])
         @ (if checkRead then [RComm_NotifyDataAvailable] else [])
         @ (if checkWrite then [RComm_NotifyOutputEmpty] else [])
         @ [User_WaitForNRequest, RTimer_Cancel, User_WaitForRequest]
         @ (if checkRead then [RComm_NotifyDataAvailableCancel] else [])
         @ (if checkWrite then [RComm_NotifyOutputEmptyCancel] else [])"
  using assms by (auto simp: select_def Let_def do_call_def)

text \<open>
  Claim C3 at a concrete input: a wait of 100 ms for read and write in which the timer
  completes first and both watches are still pending. \<^verbatim>\<open>select\<close> returns false (timed out)
  with both flags false, and returns without cancelling either watch; \<open>select_source_first\<close>
  shows that the other branch cancels them.
\<close>

theorem select_timeout_leaves_watches:
  "select 100 True True True True timer_fired opened_port
     = (False, False, False,
        opened_port\<lparr> m_selectTimer := True,
          calls := [RTimer_CreateLocal, RTimer_HighRes 100, RComm_NotifyDataAvailable,
            RComm_NotifyOutputEmpty, User_WaitForNRequest] \<rparr>)
   \<and> RComm_NotifyDataAvailableCancel \<notin> set [RTimer_CreateLocal, RTimer_HighRes 100,
        RComm_NotifyDataAvailable, RComm_NotifyOutputEmpty, User_WaitForNRequest]
   \<and> RComm_NotifyOutputEmptyCancel \<notin> set [RTimer_CreateLocal, RTimer_HighRes 100,
        RComm_NotifyDataAvailable, RComm_NotifyOutputEmpty, User_WaitForNRequest]"
  by (simp add: select_def timer_fired_def opened_port_def closed_port_def do_call_def Let_def)

section \<open>The round trip through the native settings\<close>

lemma updateCommConfig_accepted:
  "updateCommConfig KErrNone s = (True, do_call (RComm_SetConfig (m_currentSettings s)) s)"
  by (simp add: updateCommConfig_def Let_def)

lemma do_call_settings: "m_currentSettings (do_call c s) = m_currentSettings s"
  by (simp add: do_call_def)

lemma do_call_options: "dptr_options (do_call c s) = dptr_options s"
  by (simp add: do_call_def)

lemma setRate_accepts:
  assumes "settingFromRate K baud \<noteq> 0"
  shows "fst (setRate K baud AllDirections KErrNone s)
    \<and> dptr_options (snd (setRate K baud AllDirections KErrNone s)) = dptr_options s
    \<and> m_currentSettings (snd (setRate K baud AllDirections KErrNone s))
       = (m_currentSettings s)\<lparr> iRate := settingFromRate K baud \<rparr>"
  using assms
  by (simp add: setRate_def Let_def updateCommConfig_accepted do_call_settings do_call_options)

lemma setDataBits_accepts:
  assumes "d \<in> {Data5, Data6, Data7, Data8}"
  shows "fst (setDataBits d KErrNone s)
    \<and> dptr_options (snd (setDataBits d KErrNone s)) = dptr_options s
    \<and> iRate (m_currentSettings (snd (setDataBits d KErrNone s))) = iRate (m_currentSettings s)
    \<and> iParity (m_currentSettings (snd (setDataBits d KErrNone s))) = iParity (m_currentSettings s)
    \<and> iStopBits (m_currentSettings (snd (setDataBits d KErrNone s))) = iStopBits (m_currentSettings s)
    \<and> iHandshake (m_currentSettings (snd (setDataBits d KErrNone s))) = iHandshake (m_currentSettings s)
    \<and> (case iDataBits (m_currentSettings (snd (setDataBits d KErrNone s))) of
          EData5 \<Rightarrow> Data5 | EData6 \<Rightarrow> Data6 | EData7 \<Rightarrow> Data7 | EData8 \<Rightarrow> Data8
        | _ \<Rightarrow> UnknownDataBits) = d"
  using assms
  by (auto simp: setDataBits_def updateCommConfig_accepted do_call_settings do_call_options)

lemma setParity_accepts:
  assumes "p \<in> {NoParity, EvenParity, OddParity, MarkParity, SpaceParity}"
  shows "fst (setParity p KErrNone s)
    \<and> dptr_options (snd (setParity p KErrNone s)) = dptr_options s
    \<and> iRate (m_currentSettings (snd (setParity p KErrNone s))) = iRate (m_currentSettings s)
    \<and> iDataBits (m_currentSettings (snd (setParity p KErrNone s))) = iDataBits (m_currentSettings s)
    \<and> iStopBits (m_currentSettings (snd (setParity p KErrNone s))) = iStopBits (m_currentSettings s)
    \<and> iHandshake (m_currentSettings (snd (setParity p KErrNone s))) = iHandshake (m_currentSettings s)
    \<and> (case iParity (m_currentSettings (snd (setParity p KErrNone s))) of
          EParityNone \<Rightarrow> NoParity | EParityEven \<Rightarrow> EvenParity | EParityOdd \<Rightarrow> OddParity
        | EParityMark \<Rightarrow> MarkParity | EParitySpace \<Rightarrow> SpaceParity
        | _ \<Rightarrow> UnknownParity) = p"
  using assms
  by (auto simp: setParity_def updateCommConfig_accepted do_call_settings do_call_options)

lemma setStopBits_accepts:
  assumes "b \<in> {OneStop, TwoStop}"
  shows "fst (setStopBits b KErrNone s)
    \<and> dptr_options (snd (setStopBits b KErrNone s)) = dptr_options s
    \<and> iRate (m_currentSettings (snd (setStopBits b KErrNone s))) = iRate (m_currentSettings s)
    \<and> iDataBits (m_currentSettings (snd (setStopBits b KErrNone s))) = iDataBits (m_currentSettings s)
    \<and> iParity (m_currentSettings (snd (setStopBits b KErrNone s))) = iParity (m_currentSettings s)
    \<and> iHandshake (m_currentSettings (snd (setStopBits b KErrNone s))) = iHandshake (m_currentSettings s)
    \<and> (case iStopBits (m_currentSettings (snd (setStopBits b KErrNone s))) of
          EStop1 \<Rightarrow> OneStop | EStop2 \<Rightarrow> TwoStop | _ \<Rightarrow> UnknownStopBits) = b"
  using assms
  by (auto simp: setStopBits_def updateCommConfig_accepted do_call_settings do_call_options)

lemma setFlowControl_accepts:
  assumes "f \<in> {NoFlowControl, HardwareControl, SoftwareControl}"
    and "handshake_masks_separate K"
  shows "fst (setFlowControl K f KErrNone s)
    \<and> dptr_options (snd (setFlowControl K f KErrNone s)) = dptr_options s
    \<and> iRate (m_currentSettings (snd (setFlowControl K f KErrNone s))) = iRate (m_currentSettings s)
    \<and> iDataBits (m_currentSettings (snd (setFlowControl K f KErrNone s))) = iDataBits (m_currentSettings s)
    \<and> iParity (m_currentSettings (snd (setFlowControl K f KErrNone s))) = iParity (m_currentSettings s)
    \<and> iStopBits (m_currentSettings (snd (setFlowControl K f KErrNone s))) = iStopBits (m_currentSettings s)
    \<and> (if (iHandshake (m_currentSettings (snd (setFlowControl K f KErrNone s)))
               AND (KConfigObeyXoff K OR KConfigSendXoff K))
             = (KConfigObeyXoff K OR KConfigSendXoff K) then SoftwareControl
        else if (iHandshake (m_currentSettings (snd (setFlowControl K f KErrNone s)))
               AND (KConfigObeyCTS K OR KConfigFreeRTS K))
             = (KConfigObeyCTS K OR KConfigFreeRTS K) then HardwareControl
        else if iHandshake (m_currentSettings (snd (setFlowControl K f KErrNone s)))
               AND KConfigFailDSR K \<noteq> 0 then NoFlowControl
        else UnknownFlowControl) = f"
  using assms
  by (auto simp: setFlowControl_def updateCommConfig_accepted do_call_settings do_call_options
      handshake_masks_separate_def)

lemma rate_round_trip:
  assumes "distinct (map setting (standardRatesTable K))" "baud \<in> set (standardRates K)"
  shows "rateFromSetting K (settingFromRate K baud) = baud"
proof -
  obtain i where i: "i < length (standardRatesTable K)" "baud = rate (standardRatesTable K ! i)"
    using assms(2) unfolding standardRates_def by (auto simp: in_set_conv_nth)
  show ?thesis
    using settingFromRate_nth [OF i(1)] rateFromSetting_nth [OF assms(1) i(1)] i(2) by simp
qed

lemma detect_options:
  "dptr_options (detectDefaultSettings K s) = (dptr_options s)
     \<lparr> inputRate := rateFromSetting K (iRate (m_currentSettings s)),
       outputRate := rateFromSetting K (iRate (m_currentSettings s)),
       dataBits := (case iDataBits (m_currentSettings s) of EData5 \<Rightarrow> Data5 | EData6 \<Rightarrow> Data6
          | EData7 \<Rightarrow> Data7 | EData8 \<Rightarrow> Data8 | _ \<Rightarrow> UnknownDataBits),
       parity := (case iParity (m_currentSettings s) of EParityNone \<Rightarrow> NoParity
          | EParityEven \<Rightarrow> EvenParity | EParityOdd \<Rightarrow> OddParity | EParityMark \<Rightarrow> MarkParity
          | EParitySpace \<Rightarrow> SpaceParity | _ \<Rightarrow> UnknownParity),
       stopBits := (case iStopBits (m_currentSettings s) of EStop1 \<Rightarrow> OneStop
          | EStop2 \<Rightarrow> TwoStop | _ \<Rightarrow> UnknownStopBits),
       flow := (if (iHandshake (m_currentSettings s) AND (KConfigObeyXoff K OR KConfigSendXoff K))
               = (KConfigObeyXoff K OR KConfigSendXoff K) then SoftwareControl
          else if (iHandshake (m_currentSettings s) AND (KConfigObeyCTS K OR KConfigFreeRTS K))
               = (KConfigObeyCTS K OR KConfigFreeRTS K) then HardwareControl
          else if iHandshake (m_currentSettings s) AND KConfigFailDSR K \<noteq> 0 then NoFlowControl
          else UnknownFlowControl) \<rparr>"
  by (simp add: detectDefaultSettings_def Let_def)

text \<open>
  The round trip holds for every numbering and every port state under three conditions: the
  tokens of the table are pairwise different, the handshake masks are separate, and the token
  of the requested rate is not 0. When the device accepts each push, the five setters
  succeed and detection gives back exactly the configuration that was applied.
\<close>

lemma toNative_round_trip:
  assumes uniq: "distinct (map setting (standardRatesTable K))"
    and masks: "handshake_masks_separate K"
    and valid: "valid_configuration K P"
    and nonzero: "settingFromRate K (cfg_rate P) \<noteq> 0"
    and accepted: "\<And>i. reply i = KErrNone"
  shows "fst (toNative K P reply s)
    \<and> dptr_options (detectDefaultSettings K (snd (toNative K P reply s)))
       = (dptr_options s)\<lparr> inputRate := cfg_rate P, outputRate := cfg_rate P,
           dataBits := cfg_dataBits P, parity := cfg_parity P, stopBits := cfg_stopBits P,
           flow := cfg_flow P \<rparr>"
proof -
  define s1 where "s1 = snd (setRate K (cfg_rate P) AllDirections KErrNone s)"
  define s2 where "s2 = snd (setDataBits (cfg_dataBits P) KErrNone s1)"
  define s3 where "s3 = snd (setParity (cfg_parity P) KErrNone s2)"
  define s4 where "s4 = snd (setStopBits (cfg_stopBits P) KErrNone s3)"
  define s5 where "s5 = snd (setFlowControl K (cfg_flow P) KErrNone s4)"
  note v = valid [unfolded valid_configuration_def]
  have a1: "fst (setRate K (cfg_rate P) AllDirections KErrNone s)"
    "dptr_options s1 = dptr_options s"
    "iRate (m_currentSettings s1) = settingFromRate K (cfg_rate P)"
    using setRate_accepts [OF nonzero, of s] unfolding s1_def by simp_all
  have a2: "fst (setDataBits (cfg_dataBits P) KErrNone s1)"
    "dptr_options s2 = dptr_options s1"
    "iRate (m_currentSettings s2) = iRate (m_currentSettings s1)"
    "(case iDataBits (m_currentSettings s2) of
          EData5 \<Rightarrow> Data5 | EData6 \<Rightarrow> Data6 | EData7 \<Rightarrow> Data7 | EData8 \<Rightarrow> Data8
        | _ \<Rightarrow> UnknownDataBits) = cfg_dataBits P"
    using setDataBits_accepts [of "cfg_dataBits P" s1] v unfolding s2_def by blast+
  have a3: "fst (setParity (cfg_parity P) KErrNone s2)"
    "dptr_options s3 = dptr_options s2"
    "iRate (m_currentSettings s3) = iRate (m_currentSettings s2)"
    "iDataBits (m_currentSettings s3) = iDataBits (m_currentSettings s2)"
    "(case iParity (m_currentSettings s3) of
          EParityNone \<Rightarrow> NoParity | EParityEven \<Rightarrow> EvenParity | EParityOdd \<Rightarrow> OddParity
        | EParityMark \<Rightarrow> MarkParity | EParitySpace \<Rightarrow> SpaceParity
        | _ \<Rightarrow> UnknownParity) = cfg_parity P"
    using setParity_accepts [of "cfg_parity P" s2] v unfolding s3_def by blast+
  have a4: "fst (setStopBits (cfg_stopBits P) KErrNone s3)"
    "dptr_options s4 = dptr_options s3"
    "iRate (m_currentSettings s4) = iRate (m_currentSettings s3)"
    "iDataBits (m_currentSettings s4) = iDataBits (m_currentSettings s3)"
    "iParity (m_currentSettings s4) = iParity (m_currentSettings s3)"
    "(case iStopBits (m_currentSettings s4) of
          EStop1 \<Rightarrow> OneStop | EStop2 \<Rightarrow> TwoStop | _ \<Rightarrow> UnknownStopBits) = cfg_stopBits P"
    using setStopBits_accepts [of "cfg_stopBits P" s3] v unfolding s4_def by blast+
  have a5: "fst (setFlowControl K (cfg_flow P) KErrNone s4)"
    "dptr_options s5 = dptr_options s4"
    "iRate (m_currentSettings s5) = iRate (m_currentSettings s4)"
    "iDataBits (m_currentSettings s5) = iDataBits (m_currentSettings s4)"
    "iParity (m_currentSettings s5) = iParity (m_currentSettings s4)"
    "iStopBits (m_currentSettings s5) = iStopBits (m_currentSettings s4)"
    "(if (iHandshake (m_currentSettings s5) AND (KConfigObeyXoff K OR KConfigSendXoff K))
             = (KConfigObeyXoff K OR KConfigSendXoff K) then SoftwareControl
        else if (iHandshake (m_currentSettings s5) AND (KConfigObeyCTS K OR KConfigFreeRTS K))
             = (KConfigObeyCTS K OR KConfigFreeRTS K) then HardwareControl
        else if iHandshake (m_currentSettings s5) AND KConfigFailDSR K \<noteq> 0 then NoFlowControl
        else UnknownFlowControl) = cfg_flow P"
    using setFlowControl_accepts [of "cfg_flow P" K s4] v masks unfolding s5_def by blast+
  have res: "toNative K P reply s = (True, s5)"
    using a1(1) a2(1) a3(1) a4(1) a5(1)
    by (simp add: toNative_def accepted split_beta Let_def s1_def s2_def s3_def s4_def s5_def
        prod_eq_iff)
  have r: "rateFromSetting K (iRate (m_currentSettings s5)) = cfg_rate P"
    using rate_round_trip [OF uniq, of "cfg_rate P"] v a1(3) a2(3) a3(3) a4(3) a5(3) by simp
  have d: "(case iDataBits (m_currentSettings s5) of
          EData5 \<Rightarrow> Data5 | EData6 \<Rightarrow> Data6 | EData7 \<Rightarrow> Data7 | EData8 \<Rightarrow> Data8
        | _ \<Rightarrow> UnknownDataBits) = cfg_dataBits P"
    using a2(4) a3(4) a4(4) a5(4) by simp
  have p: "(case iParity (m_currentSettings s5) of
          EParityNone \<Rightarrow> NoParity | EParityEven \<Rightarrow> EvenParity | EParityOdd \<Rightarrow> OddParity
        | EParityMark \<Rightarrow> MarkParity | EParitySpace \<Rightarrow> SpaceParity
        | _ \<Rightarrow> UnknownParity) = cfg_parity P"
    using a3(5) a4(5) a5(5) by simp
  have b: "(case iStopBits (m_currentSettings s5) of
          EStop1 \<Rightarrow> OneStop | EStop2 \<Rightarrow> TwoStop | _ \<Rightarrow> UnknownStopBits) = cfg_stopBits P"
    using a4(6) a5(6) by simp
  have opts: "dptr_options s5 = dptr_options s"
    using a1(2) a2(2) a3(2) a4(2) a5(2) by simp
  show ?thesis
    unfolding res fst_conv snd_conv detect_options r d p b a5(7) opts by simp
qed

lemma symbian_masks_separate: "handshake_masks_separate symbian"
  by (simp add: handshake_masks_separate_def symbian_masks)

lemma settingFromRate_symbian_75: "settingFromRate symbian 75 = 1"
  using settingFromRate_nth [of 1 symbian]
  by (simp add: length_table) (simp add: standardRatesTable_def symbian_def)

text \<open>On the Symbian numbering: 75 baud, 7 data bits, even parity, two stop bits, hardware flow.\<close>

lemma toNative_round_trip_example:
  "fst (toNative symbian config_75_7E2 (\<lambda>i. KErrNone) opened_port)
   \<and> dptr_options (detectDefaultSettings symbian
        (snd (toNative symbian config_75_7E2 (\<lambda>i. KErrNone) opened_port)))
      = (dptr_options opened_port)\<lparr> inputRate := 75, outputRate := 75, dataBits := Data7,
          parity := EvenParity, stopBits := TwoStop, flow := HardwareControl \<rparr>"
proof -
  have v: "valid_configuration symbian config_75_7E2"
    by (simp add: valid_configuration_def config_75_7E2_def symbian_rates)
  have n: "settingFromRate symbian (cfg_rate config_75_7E2) \<noteq> 0"
    by (simp add: config_75_7E2_def settingFromRate_symbian_75)
  show ?thesis
    using toNative_round_trip [OF symbian_settings_distinct symbian_masks_separate v n,
        of "\<lambda>i. KErrNone" opened_port]
    by (simp add: config_75_7E2_def)
qed

text \<open>
  Claim C4 at a concrete input, on the Symbian numbering: 50 baud, 8 data bits, no parity, one
  stop bit and no flow control is built from valid enumerants only, and its translation to
  native settings fails at \<^verbatim>\<open>setRate\<close>: the token of 50 baud is 0, the value that stands for
  "not found". Detection then gives back the old 9600 baud, not the 50 requested.
\<close>

theorem round_trip_fails_at_50_baud:
  "valid_configuration symbian config_50_8N1
   \<and> toNative symbian config_50_8N1 (\<lambda>i. KErrNone) opened_port
       = (False, setError UnsupportedPortOperationError opened_port)
   \<and> inputRate (dptr_options (detectDefaultSettings symbian
        (snd (toNative symbian config_50_8N1 (\<lambda>i. KErrNone) opened_port)))) = 9600"
proof -
  have v: "valid_configuration symbian config_50_8N1"
    by (simp add: valid_configuration_def config_50_8N1_def symbian_rates)
  have t: "toNative symbian config_50_8N1 (\<lambda>i. KErrNone) opened_port
       = (False, setError UnsupportedPortOperationError opened_port)"
    by (simp add: toNative_def config_50_8N1_def setRate_def settingFromRate_symbian_50)
  have "iRate (m_currentSettings (setError UnsupportedPortOperationError opened_port)) = 14"
    by (simp add: setError_def opened_port_def closed_port_def settings_9600_8N1_def)
  moreover have "rateFromSetting symbian 14 = 9600"
    using rateFromSetting_nth [OF symbian_settings_distinct, of 14]
    by (simp add: length_table) (simp add: standardRatesTable_def symbian_def)
  ultimately have "inputRate (dptr_options (detectDefaultSettings symbian
        (setError UnsupportedPortOperationError opened_port))) = 9600"
    by (simp add: detect_rate)
  then show ?thesis using v t by simp
qed

text \<open>
  In any numbering, a rate of the table whose token is 0 is refused by \<^verbatim>\<open>setRate\<close>: the
  token cannot be told from the 0 that \<^verbatim>\<open>settingFromRate\<close> returns for a rate it does not
  find.
\<close>

lemma setRate_zero_token:
  assumes "i < length (standardRatesTable K)" "setting (standardRatesTable K ! i) = 0"
  shows "setRate K (rate (standardRatesTable K ! i)) AllDirections r s
    = (False, setError UnsupportedPortOperationError s)"
  using settingFromRate_nth [OF assms(1)] assms(2) by (simp add: setRate_def)

end
